theory Spec2Isabelle
  imports Main "HOL-Library.Multiset" "HOL-Library.Sublist"
begin

section \<open>Values of the store\<close>

text \<open>
  The application is a set of page components (TypeScript) that issue requests against a
  hosted PostgreSQL store whose tables are guarded by row-level-security policies (the SQL
  migration). The embedding has two layers: the tables and policies of the migration, with
  the way the store applies a policy to each kind of request, and the handlers of the pages
  (\<open>handleSubmit\<close>, \<open>handleFileChange\<close>, \<open>fetchComplaints\<close>, \<open>fetchComplaintDetails\<close>,
  \<open>sendMessage\<close>, \<open>updateComplaintStatus\<close>, \<open>assignComplaint\<close>) as functions on the
  state of the store.

  A \<open>UUID\<close> and a \<open>TEXT\<close> are strings; a string is a list of 8-bit characters, so
  \<open>length\<close> counts the code units of a text made of such characters. A \<open>TIMESTAMPTZ\<close> is a
  natural number. A nullable column is an \<open>option\<close>, \<open>None\<close> being \<open>NULL\<close>. The caller of a
  request is \<open>auth.uid()\<close>, a \<open>uuid option\<close>: \<open>None\<close> for a request without a session.
  Transient failures of the network or of the store are not modelled: every request reaches
  the store and is answered according to the schema and the policies.
\<close>

type_synonym uuid = string
type_synonym timestamptz = nat

text \<open>SQL conditions are three-valued: \<open>None\<close> is the unknown truth value.\<close>

type_synonym sql_bool = "bool option"

definition sql_eq :: "'a option \<Rightarrow> 'a option \<Rightarrow> sql_bool" where
  "sql_eq a b =
     (case a of None \<Rightarrow> None
      | Some x \<Rightarrow> (case b of None \<Rightarrow> None | Some y \<Rightarrow> Some (x = y)))"

definition sql_or :: "sql_bool \<Rightarrow> sql_bool \<Rightarrow> sql_bool" where
  "sql_or p q =
     (if p = Some True \<or> q = Some True then Some True
      else if p = None \<or> q = None then None
      else Some False)"

definition sql_and :: "sql_bool \<Rightarrow> sql_bool \<Rightarrow> sql_bool" where
  "sql_and p q =
     (if p = Some False \<or> q = Some False then Some False
      else if p = None \<or> q = None then None
      else Some True)"

definition sql_is_null :: "'a option \<Rightarrow> sql_bool" where
  "sql_is_null a = Some (a = None)"

definition sql_is_not_null :: "'a option \<Rightarrow> sql_bool" where
  "sql_is_not_null a = Some (a \<noteq> None)"

text \<open>
  A row passes a \<open>USING\<close> or a \<open>WITH CHECK\<close> expression only when the expression is true:
  false and unknown both fail.
\<close>

definition is_true :: "sql_bool \<Rightarrow> bool" where
  "is_true p = (p = Some True)"

section \<open>Schema\<close>

datatype user_role = Student | Manager | Admin

datatype complaint_status = New | Acknowledged | In_progress | Resolved | Closed

datatype complaint_priority = Low | Medium | High

datatype complaint_category =
  Facilities | Equipment | Network | Classroom | Hygiene | Safety | Other

text \<open>
  \<open>profiles\<close>: the primary key \<open>id\<close> is the key of a map. Of the other columns only those
  read by a policy or a handler are kept (\<open>phone\<close>, \<open>avatar_url\<close>, \<open>is_verified\<close> and the two
  timestamps are left out).
\<close>

record profile =
  pr_name :: string
  pr_role :: user_role
  pr_hub :: "string option"

record complaint =
  c_id :: uuid
  c_user_id :: "uuid option"
  c_manager_id :: "uuid option"
  c_title :: string
  c_description :: string
  c_category :: complaint_category
  c_hub :: string
  c_room :: "string option"
  c_priority :: complaint_priority
  c_status :: complaint_status
  c_is_anonymous :: "bool option"
  c_sla_due_at :: "timestamptz option"
  c_created_at :: timestamptz
  c_updated_at :: timestamptz

record attachment =
  a_id :: uuid
  a_complaint_id :: uuid
  a_uploader_id :: "uuid option"
  a_file_path :: string
  a_file_name :: string
  a_mime_type :: string
  a_file_size :: "nat option"
  a_created_at :: timestamptz

record message =
  m_id :: uuid
  m_complaint_id :: uuid
  m_sender_id :: "uuid option"
  m_body :: string
  m_is_internal :: "bool option"
  m_created_at :: timestamptz

text \<open>An object of the blob store: \<open>storage.objects\<close>, with its bucket and its key.\<close>

record storage_object =
  o_bucket_id :: string
  o_name :: string

text \<open>
  The state of the store. A table is the list of its rows in insertion order. The tables
  \<open>calls\<close> and \<open>audit_logs\<close> are read and written by no handler and are left out.
\<close>

record db =
  profiles :: "uuid \<rightharpoonup> profile"
  complaints :: "complaint list"
  attachments :: "attachment list"
  messages :: "message list"
  objects :: "storage_object list"

text \<open>
  What the store answers when it refuses a request. \<open>Rls_violation t\<close>: a new row of table
  \<open>t\<close> violates a row-level-security policy. \<open>Invalid_text_representation\<close>: a text that
  is no value of the enumerated type of its column. \<open>Numeric_value_out_of_range\<close>: a
  number that does not fit its \<open>INTEGER\<close> column. \<open>Not_single_row\<close>: \<open>.single()\<close> on a
  result that is not exactly one row. \<open>Already_exists\<close>: the blob store has an object with
  the key of an upload.
\<close>

datatype pg_error =
    Rls_violation string
  | Unique_violation string
  | Foreign_key_violation string
  | Invalid_text_representation
  | Numeric_value_out_of_range
  | Not_single_row
  | Already_exists

section \<open>Row-level-security policies\<close>

text \<open>
  \<open>EXISTS (SELECT 1 FROM public.profiles WHERE id = auth.uid() AND role IN ('manager',
  'admin'))\<close>. Every profile is readable (\<open>"Users can view all profiles" ... USING (true)\<close>),
  so the subquery sees the whole table.
\<close>

definition exists_manager_or_admin :: "db \<Rightarrow> uuid option \<Rightarrow> bool" where
  "exists_manager_or_admin d uid =
     (case uid of None \<Rightarrow> False
      | Some u \<Rightarrow>
          (case profiles d u of None \<Rightarrow> False
           | Some p \<Rightarrow> pr_role p = Manager \<or> pr_role p = Admin))"

text \<open>
  \<open>"Students can view own complaints" FOR SELECT USING (auth.uid() = user_id OR EXISTS ...)\<close>
\<close>

definition complaints_select_using :: "db \<Rightarrow> uuid option \<Rightarrow> complaint \<Rightarrow> sql_bool" where
  "complaints_select_using d uid c =
     sql_or (sql_eq uid (c_user_id c)) (Some (exists_manager_or_admin d uid))"

text \<open>
  \<open>"Students can create complaints" FOR INSERT WITH CHECK (auth.uid() = user_id OR
  is_anonymous = true)\<close>
\<close>

definition complaints_insert_check :: "uuid option \<Rightarrow> complaint \<Rightarrow> sql_bool" where
  "complaints_insert_check uid c =
     sql_or (sql_eq uid (c_user_id c)) (sql_eq (c_is_anonymous c) (Some True))"

text \<open>
  \<open>"Managers can update complaints" FOR UPDATE USING (EXISTS ...)\<close>. The policy has no
  \<open>WITH CHECK\<close>, so its \<open>USING\<close> expression is the check of the updated row as well.
\<close>

definition complaints_update_using :: "db \<Rightarrow> uuid option \<Rightarrow> complaint \<Rightarrow> sql_bool" where
  "complaints_update_using d uid c = Some (exists_manager_or_admin d uid)"

text \<open>
  Row-level security is enabled on every table. A command for which a table has no policy
  is denied on every row: \<open>complaints\<close> has no \<open>DELETE\<close> policy, \<open>messages\<close> has neither an
  \<open>UPDATE\<close> nor a \<open>DELETE\<close> policy, \<open>profiles\<close> has no \<open>DELETE\<close> policy.
\<close>

definition complaints_delete_using :: "db \<Rightarrow> uuid option \<Rightarrow> complaint \<Rightarrow> sql_bool" where
  "complaints_delete_using d uid c = Some False"

definition messages_update_using :: "db \<Rightarrow> uuid option \<Rightarrow> message \<Rightarrow> sql_bool" where
  "messages_update_using d uid m = Some False"

definition messages_delete_using :: "db \<Rightarrow> uuid option \<Rightarrow> message \<Rightarrow> sql_bool" where
  "messages_delete_using d uid m = Some False"

definition profiles_delete_using :: "db \<Rightarrow> uuid option \<Rightarrow> uuid \<Rightarrow> sql_bool" where
  "profiles_delete_using d uid u = Some False"

text \<open>
  \<open>"Users can view messages for accessible complaints" FOR SELECT USING (EXISTS (SELECT 1
  FROM public.complaints c WHERE c.id = complaint_id AND (c.user_id = auth.uid() OR EXISTS
  ...)))\<close>. The rows of \<open>complaints\<close> that the subquery may read are those of the caller's
  own \<open>SELECT\<close> policy, which is the condition of the subquery itself. The policy of
  \<open>attachments\<close> has the same expression.
\<close>

definition parent_complaint_readable :: "db \<Rightarrow> uuid option \<Rightarrow> uuid \<Rightarrow> bool" where
  "parent_complaint_readable d uid cid =
     (\<exists>c \<in> set (complaints d).
        c_id c = cid \<and>
        is_true (sql_or (sql_eq (c_user_id c) uid) (Some (exists_manager_or_admin d uid))))"

definition messages_select_using :: "db \<Rightarrow> uuid option \<Rightarrow> message \<Rightarrow> sql_bool" where
  "messages_select_using d uid m = Some (parent_complaint_readable d uid (m_complaint_id m))"

definition attachments_select_using :: "db \<Rightarrow> uuid option \<Rightarrow> attachment \<Rightarrow> sql_bool" where
  "attachments_select_using d uid a =
     Some (parent_complaint_readable d uid (a_complaint_id a))"

text \<open>
  \<open>"Users can create messages" FOR INSERT WITH CHECK (auth.uid() = sender_id OR sender_id
  IS NULL)\<close>
\<close>

definition messages_insert_check :: "uuid option \<Rightarrow> message \<Rightarrow> sql_bool" where
  "messages_insert_check uid m =
     sql_or (sql_eq uid (m_sender_id m)) (sql_is_null (m_sender_id m))"

text \<open>
  \<open>"Users can upload attachments" ON public.attachments FOR INSERT WITH CHECK (auth.uid() =
  uploader_id OR uploader_id IS NULL)\<close>
\<close>

definition attachments_insert_check :: "uuid option \<Rightarrow> attachment \<Rightarrow> sql_bool" where
  "attachments_insert_check uid a =
     sql_or (sql_eq uid (a_uploader_id a)) (sql_is_null (a_uploader_id a))"

section \<open>Requests to the store\<close>

text \<open>
  How the store applies the policies of a table to a request (PostgreSQL, \<open>CREATE POLICY\<close>:
  the policies applied by command type; a request of the client library is one SQL
  command):
  \<^item> \<open>SELECT\<close> returns the rows that pass the \<open>SELECT\<close> policy; the others are left out
    without an error;
  \<^item> \<open>INSERT\<close> checks the new row against the \<open>INSERT\<close> policy and fails with an error when
    it does not pass; when the request asks for the inserted row (\<open>.insert(...).select()\<close>,
    an \<open>INSERT ... RETURNING\<close>), the new row must pass the \<open>SELECT\<close> policy too, with the
    same error;
  \<^item> \<open>UPDATE\<close> and \<open>DELETE\<close> act on the rows that match the filter of the request, pass
    the \<open>USING\<close> expression of the policy of the command and are readable; the other rows
    are skipped without an error, and a request that acts on no row succeeds. An updated
    row must pass the check of the \<open>UPDATE\<close> policy and stay readable, else the request
    fails.
  Primary keys and foreign keys are checked on every row written, whoever the caller is:
  an update fails when it breaks the uniqueness of a key or a reference that held.
\<close>

definition fk_profile :: "db \<Rightarrow> uuid option \<Rightarrow> bool" where
  "fk_profile d r = (case r of None \<Rightarrow> True | Some u \<Rightarrow> profiles d u \<noteq> None)"

definition fk_complaint :: "db \<Rightarrow> uuid \<Rightarrow> bool" where
  "fk_complaint d cid = (cid \<in> set (map c_id (complaints d)))"

definition select_complaints :: "db \<Rightarrow> uuid option \<Rightarrow> complaint list" where
  "select_complaints d uid = filter (\<lambda>c. is_true (complaints_select_using d uid c)) (complaints d)"

definition select_messages :: "db \<Rightarrow> uuid option \<Rightarrow> message list" where
  "select_messages d uid = filter (\<lambda>m. is_true (messages_select_using d uid m)) (messages d)"

text \<open>\<open>returning\<close> is true for \<open>.insert(row).select()\<close>, false for \<open>.insert(row)\<close>.\<close>

definition insert_complaint :: "bool \<Rightarrow> db \<Rightarrow> uuid option \<Rightarrow> complaint \<Rightarrow> pg_error + db" where
  "insert_complaint returning d uid row =
     (if \<not> is_true (complaints_insert_check uid row) then Inl (Rls_violation ''complaints'')
      else if returning \<and> \<not> is_true (complaints_select_using d uid row)
        then Inl (Rls_violation ''complaints'')
      else if c_id row \<in> set (map c_id (complaints d)) then Inl (Unique_violation ''complaints'')
      else if \<not> fk_profile d (c_user_id row) \<or> \<not> fk_profile d (c_manager_id row)
        then Inl (Foreign_key_violation ''complaints'')
      else Inr (d\<lparr>complaints := complaints d @ [row]\<rparr>))"

definition insert_message :: "db \<Rightarrow> uuid option \<Rightarrow> message \<Rightarrow> pg_error + db" where
  "insert_message d uid row =
     (if \<not> is_true (messages_insert_check uid row) then Inl (Rls_violation ''messages'')
      else if m_id row \<in> set (map m_id (messages d)) then Inl (Unique_violation ''messages'')
      else if \<not> fk_complaint d (m_complaint_id row) \<or> \<not> fk_profile d (m_sender_id row)
        then Inl (Foreign_key_violation ''messages'')
      else Inr (d\<lparr>messages := messages d @ [row]\<rparr>))"

text \<open>\<open>file_size\<close> is an \<open>INTEGER\<close>, of 32 bits with a sign.\<close>

definition insert_attachment :: "db \<Rightarrow> uuid option \<Rightarrow> attachment \<Rightarrow> pg_error + db" where
  "insert_attachment d uid row =
     (if (case a_file_size row of None \<Rightarrow> False | Some n \<Rightarrow> n \<ge> 2 ^ 31)
        then Inl Numeric_value_out_of_range
      else if \<not> is_true (attachments_insert_check uid row)
        then Inl (Rls_violation ''attachments'')
      else if a_id row \<in> set (map a_id (attachments d))
        then Inl (Unique_violation ''attachments'')
      else if \<not> fk_complaint d (a_complaint_id row) \<or> \<not> fk_profile d (a_uploader_id row)
        then Inl (Foreign_key_violation ''attachments'')
      else Inr (d\<lparr>attachments := attachments d @ [row]\<rparr>))"

text \<open>
  \<open>UPDATE public.complaints SET ... WHERE ...\<close> at time \<open>now\<close>. The trigger
  \<open>update_complaints_updated_at\<close> (\<open>BEFORE UPDATE ... FOR EACH ROW\<close>) sets \<open>updated_at\<close> of
  every row that is updated.
\<close>

definition update_complaints ::
  "timestamptz \<Rightarrow> db \<Rightarrow> uuid option \<Rightarrow> (complaint \<Rightarrow> bool) \<Rightarrow> (complaint \<Rightarrow> complaint)
     \<Rightarrow> pg_error + db" where
  "update_complaints now d uid filt set_cols =
     (let target = (\<lambda>c. filt c \<and> is_true (complaints_update_using d uid c)
                          \<and> is_true (complaints_select_using d uid c));
          new_row = (\<lambda>c. (set_cols c)\<lparr>c_updated_at := now\<rparr>);
          news = map new_row (filter target (complaints d));
          table = map (\<lambda>c. if target c then new_row c else c) (complaints d)
      in if \<exists>n \<in> set news. \<not> is_true (complaints_update_using d uid n)
                           \<or> \<not> is_true (complaints_select_using d uid n)
           then Inl (Rls_violation ''complaints'')
         else if distinct (map c_id (complaints d)) \<and> \<not> distinct (map c_id table)
           then Inl (Unique_violation ''complaints'')
         else if \<exists>n \<in> set news. \<not> fk_profile d (c_user_id n) \<or> \<not> fk_profile d (c_manager_id n)
           then Inl (Foreign_key_violation ''complaints'')
         else if (\<exists>m \<in> set (messages d). fk_complaint d (m_complaint_id m)
                    \<and> m_complaint_id m \<notin> set (map c_id table))
                 \<or> (\<exists>a \<in> set (attachments d). fk_complaint d (a_complaint_id a)
                    \<and> a_complaint_id a \<notin> set (map c_id table))
           then Inl (Foreign_key_violation ''complaints'')
         else Inr (d\<lparr>complaints := table\<rparr>))"

text \<open>
  \<open>UPDATE public.messages\<close>, and the three \<open>DELETE\<close> requests. Deleting a complaint deletes
  its attachments and its messages (\<open>ON DELETE CASCADE\<close>); deleting a profile clears the
  references to it (\<open>ON DELETE SET NULL\<close>). The referential actions are not subject to the
  policies of the tables they reach.
\<close>

definition update_messages ::
  "db \<Rightarrow> uuid option \<Rightarrow> (message \<Rightarrow> bool) \<Rightarrow> (message \<Rightarrow> message) \<Rightarrow> pg_error + db" where
  "update_messages d uid filt set_cols =
     (let target = (\<lambda>m. filt m \<and> is_true (messages_update_using d uid m)
                          \<and> is_true (messages_select_using d uid m));
          news = map set_cols (filter target (messages d));
          table = map (\<lambda>m. if target m then set_cols m else m) (messages d)
      in if \<exists>n \<in> set news. \<not> is_true (messages_update_using d uid n)
                           \<or> \<not> is_true (messages_select_using d uid n)
           then Inl (Rls_violation ''messages'')
         else if distinct (map m_id (messages d)) \<and> \<not> distinct (map m_id table)
           then Inl (Unique_violation ''messages'')
         else if \<exists>n \<in> set news. \<not> fk_complaint d (m_complaint_id n) \<or> \<not> fk_profile d (m_sender_id n)
           then Inl (Foreign_key_violation ''messages'')
         else Inr (d\<lparr>messages := table\<rparr>))"

definition delete_messages :: "db \<Rightarrow> uuid option \<Rightarrow> (message \<Rightarrow> bool) \<Rightarrow> pg_error + db" where
  "delete_messages d uid filt =
     (let target = (\<lambda>m. filt m \<and> is_true (messages_delete_using d uid m)
                          \<and> is_true (messages_select_using d uid m))
      in Inr (d\<lparr>messages := filter (\<lambda>m. \<not> target m) (messages d)\<rparr>))"

definition delete_complaints :: "db \<Rightarrow> uuid option \<Rightarrow> (complaint \<Rightarrow> bool) \<Rightarrow> pg_error + db" where
  "delete_complaints d uid filt =
     (let target = (\<lambda>c. filt c \<and> is_true (complaints_delete_using d uid c)
                          \<and> is_true (complaints_select_using d uid c));
          gone = map c_id (filter target (complaints d))
      in Inr (d\<lparr>complaints := filter (\<lambda>c. \<not> target c) (complaints d),
                attachments := filter (\<lambda>a. a_complaint_id a \<notin> set gone) (attachments d),
                messages := filter (\<lambda>m. m_complaint_id m \<notin> set gone) (messages d)\<rparr>))"

definition set_null :: "(uuid \<Rightarrow> bool) \<Rightarrow> uuid option \<Rightarrow> uuid option" where
  "set_null gone r = (case r of None \<Rightarrow> None | Some u \<Rightarrow> if gone u then None else Some u)"

definition delete_profiles :: "db \<Rightarrow> uuid option \<Rightarrow> (uuid \<Rightarrow> profile \<Rightarrow> bool) \<Rightarrow> pg_error + db" where
  "delete_profiles d uid filt =
     (let gone = (\<lambda>u. case profiles d u of None \<Rightarrow> False
                        | Some p \<Rightarrow> filt u p \<and> is_true (profiles_delete_using d uid u))
      in Inr (d\<lparr>profiles := (\<lambda>u. if gone u then None else profiles d u),
                complaints := map (\<lambda>c. c\<lparr>c_user_id := set_null gone (c_user_id c),
                                          c_manager_id := set_null gone (c_manager_id c)\<rparr>)
                                (complaints d),
                attachments := map (\<lambda>a. a\<lparr>a_uploader_id := set_null gone (a_uploader_id a)\<rparr>)
                                 (attachments d),
                messages := map (\<lambda>m. m\<lparr>m_sender_id := set_null gone (m_sender_id m)\<rparr>)
                              (messages d)\<rparr>))"

section \<open>The submission form (SubmitComplaint.tsx)\<close>

subsection \<open>Strings\<close>

text \<open>
  \<open>String.prototype.trim\<close> removes white space and line terminators from both ends; among
  the 8-bit characters these are the codes 9 to 13, 32 and 160.
\<close>

definition is_white_space :: "char \<Rightarrow> bool" where
  "is_white_space c =
     (c \<in> set [CHR 0x09, CHR 0x0A, CHR 0x0B, CHR 0x0C, CHR 0x0D, CHR 0x20, CHR 0xA0])"

definition trim :: "string \<Rightarrow> string" where
  "trim s = rev (dropWhile is_white_space (rev (dropWhile is_white_space s)))"

text \<open>
  \<open>s.split(sep)\<close> for a separator of one character: the pieces between the separators, at
  least one piece (the empty string splits into one empty piece).
\<close>

fun js_split :: "char \<Rightarrow> string \<Rightarrow> string list" where
  "js_split sep [] = [[]]"
| "js_split sep (c # cs) =
     (if c = sep then [] # js_split sep cs
      else (case js_split sep cs of [] \<Rightarrow> [[c]] | p # ps \<Rightarrow> (c # p) # ps))"

text \<open>The decimal digits of a number, as a template literal prints \<open>Date.now()\<close>.\<close>

fun show_nat :: "nat \<Rightarrow> string" where
  "show_nat n =
     (if n < 10 then [char_of (48 + n)]
      else show_nat (n div 10) @ [char_of (48 + n mod 10)])"

declare show_nat.simps [simp del]

subsection \<open>Validation: \<open>complaintSchema\<close>\<close>

text \<open>
  \<open>data\<close> is what \<open>handleSubmit\<close> reads from the form. Every entry of the form is a string;
  \<open>room\<close> is \<open>formData.get('room') as string || null\<close>, so an empty entry becomes \<open>null\<close>.
\<close>

record form_data =
  fd_title :: string
  fd_description :: string
  fd_category :: string
  fd_hub :: string
  fd_room :: string
  fd_priority :: string

record data =
  title :: string
  description :: string
  category :: string
  hub :: string
  room :: "string option"
  priority :: string

definition read_form :: "form_data \<Rightarrow> data" where
  "read_form fd =
     \<lparr>title = fd_title fd, description = fd_description fd, category = fd_category fd,
      hub = fd_hub fd, room = (if fd_room fd = [] then None else Some (fd_room fd)),
      priority = fd_priority fd\<rparr>"

text \<open>
  An issue of a failed parse: \<open>Issue msg\<close> carries the message the schema gives for a length
  check; \<open>Invalid_type k\<close> and \<open>Invalid_enum_value k\<close> are the library's own issues for the
  key \<open>k\<close>.
\<close>

datatype zod_issue = Issue string | Invalid_type string | Invalid_enum_value string

text \<open>\<open>z.string().trim().min(lo, lo_msg).max(hi, hi_msg)\<close>: the checks follow the trim.\<close>

definition string_trim_min_max :: "nat \<Rightarrow> string \<Rightarrow> nat \<Rightarrow> string \<Rightarrow> string \<Rightarrow> zod_issue list" where
  "string_trim_min_max lo lo_msg hi hi_msg s =
     (let t = trim s
      in (if length t < lo then [Issue lo_msg] else []) @
         (if length t > hi then [Issue hi_msg] else []))"

definition title_issues :: "string \<Rightarrow> zod_issue list" where
  "title_issues s =
     string_trim_min_max 5 ''Title must be at least 5 characters'' 200 ''Title too long'' s"

definition description_issues :: "string \<Rightarrow> zod_issue list" where
  "description_issues s =
     string_trim_min_max 20 ''Description must be at least 20 characters''
       2000 ''Description too long'' s"

definition category_issues :: "string \<Rightarrow> zod_issue list" where
  "category_issues s =
     (if s \<in> set [''facilities'', ''equipment'', ''network'', ''classroom'', ''hygiene'',
                   ''safety'', ''other'']
      then [] else [Invalid_enum_value ''category''])"

definition hub_issues :: "string \<Rightarrow> zod_issue list" where
  "hub_issues s = string_trim_min_max 2 ''Hub is required'' 100 ''Hub name too long'' s"

text \<open>
  \<open>z.string().trim().max(100, 'Room name too long').optional()\<close>: \<open>optional()\<close> admits
  \<open>undefined\<close>, not \<open>null\<close>, and \<open>data.room\<close> is a string or \<open>null\<close>; \<open>null\<close> is not a string.
\<close>

definition room_issues :: "string option \<Rightarrow> zod_issue list" where
  "room_issues r =
     (case r of None \<Rightarrow> [Invalid_type ''room'']
      | Some s \<Rightarrow> (if length (trim s) > 100 then [Issue ''Room name too long''] else []))"

definition priority_issues :: "string \<Rightarrow> zod_issue list" where
  "priority_issues s =
     (if s \<in> set [''low'', ''medium'', ''high''] then [] else [Invalid_enum_value ''priority''])"

text \<open>\<open>complaintSchema.parse(data)\<close> throws when this list is not empty.\<close>

definition complaintSchema_issues :: "data \<Rightarrow> zod_issue list" where
  "complaintSchema_issues x =
     title_issues (title x) @ description_issues (description x) @
     category_issues (category x) @ hub_issues (hub x) @ room_issues (room x) @
     priority_issues (priority x)"

text \<open>The store casts the text of an enumerated column to its type.\<close>

definition category_of :: "string \<Rightarrow> complaint_category option" where
  "category_of s =
     (if s = ''facilities'' then Some Facilities
      else if s = ''equipment'' then Some Equipment
      else if s = ''network'' then Some Network
      else if s = ''classroom'' then Some Classroom
      else if s = ''hygiene'' then Some Hygiene
      else if s = ''safety'' then Some Safety
      else if s = ''other'' then Some Other
      else None)"

definition priority_of :: "string \<Rightarrow> complaint_priority option" where
  "priority_of s =
     (if s = ''low'' then Some Low
      else if s = ''medium'' then Some Medium
      else if s = ''high'' then Some High
      else None)"

subsection \<open>The blob store\<close>

text \<open>
  \<open>storage.foldername(name)\<close> is the platform's function: the key split at \<open>/\<close>
  (\<open>string_to_array\<close>, which gives no piece for the empty string), without its last piece.
  \<open>(a)[1]\<close> is the first element of an array, \<open>NULL\<close> when there is none.
\<close>

definition string_to_array :: "string \<Rightarrow> char \<Rightarrow> string list" where
  "string_to_array s sep = (if s = [] then [] else js_split sep s)"

definition foldername :: "string \<Rightarrow> string list" where
  "foldername name = butlast (string_to_array name (CHR ''/''))"

definition sql_first :: "'a list \<Rightarrow> 'a option" where
  "sql_first a = (case a of [] \<Rightarrow> None | x # _ \<Rightarrow> Some x)"

text \<open>
  \<open>"Users can upload attachments" ON storage.objects FOR INSERT WITH CHECK (bucket_id =
  'complaint-attachments' AND auth.uid() IS NOT NULL)\<close>
\<close>

definition objects_insert_check :: "uuid option \<Rightarrow> storage_object \<Rightarrow> sql_bool" where
  "objects_insert_check uid ob =
     sql_and (Some (o_bucket_id ob = ''complaint-attachments'')) (sql_is_not_null uid)"

text \<open>
  \<open>"Users can view attachments for their complaints" ON storage.objects FOR SELECT USING
  (bucket_id = 'complaint-attachments' AND (auth.uid()::text = (storage.foldername(name))[1]
  OR EXISTS ...))\<close>. \<open>objects_owner_clause\<close> is the first disjunct.
\<close>

definition objects_owner_clause :: "uuid option \<Rightarrow> storage_object \<Rightarrow> sql_bool" where
  "objects_owner_clause uid ob = sql_eq uid (sql_first (foldername (o_name ob)))"

definition objects_select_using :: "db \<Rightarrow> uuid option \<Rightarrow> storage_object \<Rightarrow> sql_bool" where
  "objects_select_using d uid ob =
     sql_and (Some (o_bucket_id ob = ''complaint-attachments''))
       (sql_or (objects_owner_clause uid ob) (Some (exists_manager_or_admin d uid)))"

text \<open>\<open>supabase.storage.from(bucket).upload(name, file)\<close>: a new object, never a replacement.\<close>

definition storage_upload :: "db \<Rightarrow> uuid option \<Rightarrow> string \<Rightarrow> string \<Rightarrow> pg_error + db" where
  "storage_upload d uid bucket name =
     (let ob = \<lparr>o_bucket_id = bucket, o_name = name\<rparr>
      in if \<not> is_true (objects_insert_check uid ob) then Inl (Rls_violation ''objects'')
         else if ob \<in> set (objects d) then Inl Already_exists
         else Inr (d\<lparr>objects := objects d @ [ob]\<rparr>))"

subsection \<open>Choosing files: \<open>handleFileChange\<close>, \<open>removeFile\<close>\<close>

record File =
  f_name :: string
  f_size :: nat
  f_type :: string

text \<open>
  A notification shown to the user: \<open>toast.success(msg)\<close>, \<open>toast.error(msg)\<close>, the message
  of the first issue of a failed parse (\<open>error.errors[0].message\<close>), the message of an error
  of the store (\<open>error.message\<close>).
\<close>

datatype toast =
    Toast_success string
  | Toast_error string
  | Toast_zod zod_issue
  | Toast_pg pg_error




subsection \<open>Submitting: \<open>handleSubmit\<close>\<close>

text \<open>
  What the environment decides during a submission: the id the store generates for the new
  complaint (\<open>gen_random_uuid()\<close>), the time of the insertion (\<open>NOW()\<close>), and for the
  \<open>i\<close>-th file the reading of \<open>Date.now()\<close>, the id and the time of its attachment row.
\<close>

record env =
  e_complaint_id :: uuid
  e_now :: timestamptz
  e_date_now :: "nat \<Rightarrow> nat"
  e_attachment_id :: "nat \<Rightarrow> uuid"
  e_attachment_now :: "nat \<Rightarrow> timestamptz"

text \<open>The key of the object of a file: \<open>`${complaint.id}/${Date.now()}.${fileExt}`\<close>.\<close>

definition object_key :: "uuid \<Rightarrow> nat \<Rightarrow> File \<Rightarrow> string" where
  "object_key complaint_id date_now f =
     (let fileExt = last (js_split (CHR ''.'') (f_name f))
      in complaint_id @ ''/'' @ show_nat date_now @ ''.'' @ fileExt)"

text \<open>
  The body of the loop over \<open>files\<close>, for the \<open>i\<close>-th file: the upload, and when it
  succeeds the insertion into \<open>attachments\<close>, whose result is not looked at. A file whose
  upload fails is skipped.
\<close>

definition attachment_row ::
  "env \<Rightarrow> uuid option \<Rightarrow> bool \<Rightarrow> uuid \<Rightarrow> nat \<Rightarrow> File \<Rightarrow> string \<Rightarrow> attachment" where
  "attachment_row e user isAnonymous complaint_id i f fileName =
     \<lparr>a_id = e_attachment_id e i, a_complaint_id = complaint_id,
      a_uploader_id = (if isAnonymous then None else user),
      a_file_path = fileName, a_file_name = f_name f,
      a_mime_type = f_type f, a_file_size = Some (f_size f),
      a_created_at = e_attachment_now e i\<rparr>"

definition upload_file :: "env \<Rightarrow> uuid option \<Rightarrow> bool \<Rightarrow> uuid \<Rightarrow> nat \<Rightarrow> File \<Rightarrow> db \<Rightarrow> db" where
  "upload_file e user isAnonymous complaint_id i f d =
     (let fileName = object_key complaint_id (e_date_now e i) f
      in case storage_upload d user ''complaint-attachments'' fileName of
           Inl uploadError \<Rightarrow> d
         | Inr d1 \<Rightarrow>
             (case insert_attachment d1 user
                     (attachment_row e user isAnonymous complaint_id i f fileName) of
                Inl _ \<Rightarrow> d1
              | Inr d2 \<Rightarrow> d2))"

fun upload_files :: "env \<Rightarrow> uuid option \<Rightarrow> bool \<Rightarrow> uuid \<Rightarrow> nat \<Rightarrow> File list \<Rightarrow> db \<Rightarrow> db" where
  "upload_files e user isAnonymous complaint_id i [] d = d"
| "upload_files e user isAnonymous complaint_id i (f # fs) d =
     upload_files e user isAnonymous complaint_id (Suc i) fs
       (upload_file e user isAnonymous complaint_id i f d)"

text \<open>
  \<open>handleSubmit\<close>: \<open>user\<close> is \<open>user?.id\<close>, the id of the session that also is \<open>auth.uid()\<close> of
  the requests. The columns the handler does not send take their defaults. The handler
  sends \<open>data.title\<close> and the other entries as they were read, not the trimmed values of the
  parse.
\<close>

definition complaint_row ::
  "env \<Rightarrow> uuid option \<Rightarrow> bool \<Rightarrow> data \<Rightarrow> complaint_category \<Rightarrow> complaint_priority
     \<Rightarrow> complaint" where
  "complaint_row e user isAnonymous x cat pri =
     \<lparr>c_id = e_complaint_id e,
      c_user_id = (if isAnonymous then None else user),
      c_manager_id = None,
      c_title = title x, c_description = description x,
      c_category = cat, c_hub = hub x, c_room = room x,
      c_priority = pri, c_status = New,
      c_is_anonymous = Some isAnonymous, c_sla_due_at = None,
      c_created_at = e_now e, c_updated_at = e_now e\<rparr>"

definition handleSubmit ::
  "env \<Rightarrow> db \<Rightarrow> uuid option \<Rightarrow> bool \<Rightarrow> File list \<Rightarrow> form_data \<Rightarrow> toast \<times> db" where
  "handleSubmit e d user isAnonymous files fd =
     (let x = read_form fd
      in case complaintSchema_issues x of
           issue # _ \<Rightarrow> (Toast_zod issue, d)
         | [] \<Rightarrow>
            (case (category_of (category x), priority_of (priority x)) of
               (Some cat, Some pri) \<Rightarrow>
                 (let complaint = complaint_row e user isAnonymous x cat pri
                  in case insert_complaint True d user complaint of
                       Inl complaintError \<Rightarrow> (Toast_pg complaintError, d)
                     | Inr d1 \<Rightarrow>
                         (Toast_success ''Complaint submitted successfully!'',
                          upload_files e user isAnonymous (c_id complaint) 0 files d1))
             | _ \<Rightarrow> (Toast_pg Invalid_text_representation, d)))"

section \<open>The student dashboard (Dashboard.tsx)\<close>

text \<open>
  \<open>.order('created_at', { ascending: ... })\<close>. The store leaves the order of rows with equal
  keys open; the model sorts stably.
\<close>

definition order_asc :: "('a \<Rightarrow> timestamptz) \<Rightarrow> 'a list \<Rightarrow> 'a list" where
  "order_asc key rows = sort_key key rows"

definition order_desc :: "('a \<Rightarrow> timestamptz) \<Rightarrow> 'a list \<Rightarrow> 'a list" where
  "order_desc key rows = rev (sort_key key rows)"

text \<open>
  \<open>fetchComplaints\<close>: \<open>supabase.from('complaints').select('*').order('created_at', {
  ascending: false })\<close>, the list the dashboard shows. The query has no filter of its own:
  which rows come back is decided by the \<open>SELECT\<close> policy alone. The manager dashboard runs
  the same query, with the name of the submitter's profile joined to each row.
\<close>

definition fetchComplaints :: "db \<Rightarrow> uuid option \<Rightarrow> complaint list" where
  "fetchComplaints d user = order_desc c_created_at (select_complaints d user)"

text \<open>The role of the caller's profile, if the caller has a session and a profile.\<close>

definition role_of :: "db \<Rightarrow> uuid option \<Rightarrow> user_role option" where
  "role_of d uid = (case uid of None \<Rightarrow> None | Some u \<Rightarrow> map_option pr_role (profiles d u))"

section \<open>The complaint and its thread (ComplaintDetail)\<close>

text \<open>
  The state of the view: the \<open>id\<close> of the route, the complaint and the messages loaded, the
  text being typed.
\<close>

record view =
  v_id :: uuid
  v_complaint :: "complaint option"
  v_messages :: "message list"
  v_newMessage :: string

definition single :: "'a list \<Rightarrow> pg_error + 'a" where
  "single rows = (case rows of [r] \<Rightarrow> Inr r | _ \<Rightarrow> Inl Not_single_row)"

text \<open>
  \<open>fetchComplaintDetails\<close>: the complaint of the route, then its messages in ascending order
  of \<open>created_at\<close>. When the complaint cannot be read the view shows an error and is left
  (\<open>navigate('/dashboard')\<close>); its state is not set.
\<close>

definition fetchComplaintDetails :: "db \<Rightarrow> uuid option \<Rightarrow> view \<Rightarrow> toast list \<times> view" where
  "fetchComplaintDetails d user v =
     (case single (filter (\<lambda>c. c_id c = v_id v) (select_complaints d user)) of
        Inl complaintError \<Rightarrow> ([Toast_error ''Failed to load complaint details''], v)
      | Inr complaintData \<Rightarrow>
          ([], v\<lparr>v_complaint := Some complaintData,
                  v_messages := order_asc m_created_at
                    (filter (\<lambda>m. m_complaint_id m = v_id v) (select_messages d user))\<rparr>))"

text \<open>The id and the time the store gives a new message.\<close>

record message_env =
  e_message_id :: uuid
  e_message_now :: timestamptz

text \<open>
  \<open>sendMessage\<close>: \<open>if (!newMessage.trim() || !complaint) return;\<close> then the insertion, without
  \<open>.select()\<close>, of \<open>{complaint_id: complaint.id, sender_id: user?.id, body:
  newMessage.trim()}\<close>; on success the text is cleared and the thread is fetched again.
\<close>

definition message_row :: "message_env \<Rightarrow> uuid option \<Rightarrow> complaint \<Rightarrow> string \<Rightarrow> message" where
  "message_row e user complaint newMessage =
     \<lparr>m_id = e_message_id e, m_complaint_id = c_id complaint,
      m_sender_id = user, m_body = trim newMessage,
      m_is_internal = Some False, m_created_at = e_message_now e\<rparr>"

definition sendMessage ::
  "message_env \<Rightarrow> db \<Rightarrow> uuid option \<Rightarrow> view \<Rightarrow> toast list \<times> db \<times> view" where
  "sendMessage e d user v =
     (if trim (v_newMessage v) = [] then ([], d, v)
      else case v_complaint v of
        None \<Rightarrow> ([], d, v)
      | Some complaint \<Rightarrow>
          (case insert_message d user (message_row e user complaint (v_newMessage v)) of
             Inl error \<Rightarrow> ([Toast_error ''Failed to send message''], d, v)
           | Inr d1 \<Rightarrow>
               (case fetchComplaintDetails d1 user (v\<lparr>v_newMessage := []\<rparr>) of
                  (ts, v1) \<Rightarrow> (ts @ [Toast_success ''Message sent''], d1, v1))))"

section \<open>The manager dashboard (ManagerDashboard.tsx)\<close>

text \<open>
  \<open>updateComplaintStatus\<close> and \<open>assignComplaint\<close>: \<open>.update({...}).eq('id', complaintId)\<close>,
  then \<open>if (error) throw error\<close>. The new status is one of the five items of the status
  menu. Both handlers fetch the list again after a success, which changes nothing in the
  store.
\<close>

text \<open>
  \<open>checkManagerAccess\<close>, run when the page opens: the caller's profile is read, and a caller
  who is neither manager nor admin gets a notification and is sent to the student
  dashboard; only for a manager or an admin is \<open>profile\<close> set and the list of complaints,
  with its controls for status and assignment, fetched and shown. The result is the
  notification, if any, and the state \<open>profile\<close>.
\<close>

definition checkManagerAccess :: "db \<Rightarrow> uuid option \<Rightarrow> toast option \<times> profile option" where
  "checkManagerAccess d user =
     (case (case user of None \<Rightarrow> None | Some u \<Rightarrow> profiles d u) of
        None \<Rightarrow> (Some (Toast_error ''Failed to verify access''), None)
      | Some p \<Rightarrow>
          if pr_role p \<noteq> Manager \<and> pr_role p \<noteq> Admin
          then (Some (Toast_error ''Access denied. Manager or admin role required.''), None)
          else (None, Some p))"

definition updateComplaintStatus ::
  "timestamptz \<Rightarrow> db \<Rightarrow> uuid option \<Rightarrow> uuid \<Rightarrow> complaint_status \<Rightarrow> toast \<times> db" where
  "updateComplaintStatus now d user complaintId newStatus =
     (case update_complaints now d user (\<lambda>c. c_id c = complaintId)
             (\<lambda>c. c\<lparr>c_status := newStatus\<rparr>) of
        Inl error \<Rightarrow> (Toast_error ''Failed to update status'', d)
      | Inr d1 \<Rightarrow> (Toast_success ''Status updated successfully'', d1))"

definition assignComplaint ::
  "timestamptz \<Rightarrow> db \<Rightarrow> uuid option \<Rightarrow> uuid \<Rightarrow> uuid option \<Rightarrow> toast \<times> db" where
  "assignComplaint now d user complaintId managerId =
     (case update_complaints now d user (\<lambda>c. c_id c = complaintId)
             (\<lambda>c. c\<lparr>c_manager_id := managerId\<rparr>) of
        Inl error \<Rightarrow> (Toast_error ''Failed to assign complaint'', d)
      | Inr d1 \<Rightarrow>
          (Toast_success (if managerId = None \<or> managerId = Some []
                          then ''Assignment removed''
                          else ''Complaint assigned successfully''), d1))"

section \<open>Everything a caller can do\<close>

text \<open>
  A request that a caller can send to the store directly, with any row, filter and
  assignment, on the tables from which a message can be reached: \<open>messages\<close> itself,
  \<open>complaints\<close> (whose deletion cascades) and \<open>profiles\<close> (whose deletion clears
  \<open>sender_id\<close>), and the writes of the handlers on \<open>attachments\<close> and the blob store.
\<close>

datatype request =
    Insert_complaint bool complaint
  | Update_complaints timestamptz "complaint \<Rightarrow> bool" "complaint \<Rightarrow> complaint"
  | Delete_complaints "complaint \<Rightarrow> bool"
  | Insert_message message
  | Update_messages "message \<Rightarrow> bool" "message \<Rightarrow> message"
  | Delete_messages "message \<Rightarrow> bool"
  | Insert_attachment attachment
  | Storage_upload string string
  | Delete_profiles "uuid \<Rightarrow> profile \<Rightarrow> bool"

fun exec :: "db \<Rightarrow> uuid option \<Rightarrow> request \<Rightarrow> pg_error + db" where
  "exec d uid (Insert_complaint returning row) = insert_complaint returning d uid row"
| "exec d uid (Update_complaints now filt set_cols) = update_complaints now d uid filt set_cols"
| "exec d uid (Delete_complaints filt) = delete_complaints d uid filt"
| "exec d uid (Insert_message row) = insert_message d uid row"
| "exec d uid (Update_messages filt set_cols) = update_messages d uid filt set_cols"
| "exec d uid (Delete_messages filt) = delete_messages d uid filt"
| "exec d uid (Insert_attachment row) = insert_attachment d uid row"
| "exec d uid (Storage_upload bucket name) = storage_upload d uid bucket name"
| "exec d uid (Delete_profiles filt) = delete_profiles d uid filt"

text \<open>An action of a caller: a direct request, or one of the handlers of the pages.\<close>

datatype action =
    Request request
  | HandleSubmit env bool "File list" form_data
  | SendMessage message_env view
  | UpdateComplaintStatus timestamptz uuid complaint_status
  | AssignComplaint timestamptz uuid "uuid option"

fun step :: "db \<Rightarrow> uuid option \<times> action \<Rightarrow> db" where
  "step d (uid, Request r) = (case exec d uid r of Inl _ \<Rightarrow> d | Inr d1 \<Rightarrow> d1)"
| "step d (uid, HandleSubmit e isAnonymous files fd) =
     snd (handleSubmit e d uid isAnonymous files fd)"
| "step d (uid, SendMessage e v) = fst (snd (sendMessage e d uid v))"
| "step d (uid, UpdateComplaintStatus now complaintId newStatus) =
     snd (updateComplaintStatus now d uid complaintId newStatus)"
| "step d (uid, AssignComplaint now complaintId managerId) =
     snd (assignComplaint now d uid complaintId managerId)"

definition run :: "db \<Rightarrow> (uuid option \<times> action) list \<Rightarrow> db" where
  "run d acts = foldl step d acts"

section \<open>A small store for the examples\<close>

text \<open>
  Two students and a manager; a valid form; three complaints, the third anonymous; two
  messages on the first complaint, stored in the reverse of their order in time.
\<close>

definition profiles0 :: "uuid \<rightharpoonup> profile" where
  "profiles0 =
     [''s1'' \<mapsto> \<lparr>pr_name = ''Asha'', pr_role = Student, pr_hub = Some ''Kochi Hub''\<rparr>,
      ''s2'' \<mapsto> \<lparr>pr_name = ''Binu'', pr_role = Student, pr_hub = None\<rparr>,
      ''m1'' \<mapsto> \<lparr>pr_name = ''Mini'', pr_role = Manager, pr_hub = None\<rparr>]"

definition db0 :: db where
  "db0 = \<lparr>profiles = profiles0, complaints = [], attachments = [], messages = [],
          objects = []\<rparr>"

definition env0 :: env where
  "env0 = \<lparr>e_complaint_id = ''c1'', e_now = 100, e_date_now = (\<lambda>i. 1700 + i),
           e_attachment_id = (\<lambda>i. ''a'' @ show_nat i), e_attachment_now = (\<lambda>i. 101 + i)\<rparr>"

definition form0 :: form_data where
  "form0 = \<lparr>fd_title = ''Broken projector'',
            fd_description = ''The projector in Lab 1 does not turn on.'',
            fd_category = ''equipment'', fd_hub = ''Kochi Hub'', fd_room = ''Lab 1'',
            fd_priority = ''high''\<rparr>"

definition row0 :: "uuid \<Rightarrow> uuid option \<Rightarrow> bool \<Rightarrow> timestamptz \<Rightarrow> complaint" where
  "row0 i user isAnonymous t =
     \<lparr>c_id = i, c_user_id = user, c_manager_id = None,
      c_title = ''Broken projector'',
      c_description = ''The projector in Lab 1 does not turn on.'',
      c_category = Equipment, c_hub = ''Kochi Hub'', c_room = Some ''Lab 1'',
      c_priority = High, c_status = New, c_is_anonymous = Some isAnonymous,
      c_sla_due_at = None, c_created_at = t, c_updated_at = t\<rparr>"

definition msg0 :: "uuid \<Rightarrow> uuid \<Rightarrow> uuid option \<Rightarrow> string \<Rightarrow> timestamptz \<Rightarrow> message" where
  "msg0 i cid sender body t =
     \<lparr>m_id = i, m_complaint_id = cid, m_sender_id = sender, m_body = body,
      m_is_internal = Some False, m_created_at = t\<rparr>"

definition db1 :: db where
  "db1 = \<lparr>profiles = profiles0,
          complaints = [row0 ''c1'' (Some ''s1'') False 100, row0 ''c2'' (Some ''s2'') False 300,
                        row0 ''c3'' None True 200],
          attachments = [],
          messages = [msg0 ''x1'' ''c1'' (Some ''s1'') ''Any news?'' 400,
                      msg0 ''x2'' ''c1'' (Some ''m1'') ''Looking into it'' 350],
          objects = []\<rparr>"

definition file0 :: "string \<Rightarrow> nat \<Rightarrow> File" where
  "file0 n s = \<lparr>f_name = n, f_size = s, f_type = ''image/png''\<rparr>"

definition menv0 :: message_env where
  "menv0 = \<lparr>e_message_id = ''x3'', e_message_now = 500\<rparr>"

definition view0 :: "uuid \<Rightarrow> complaint option \<Rightarrow> string \<Rightarrow> view" where
  "view0 i c txt = \<lparr>v_id = i, v_complaint = c, v_messages = [], v_newMessage = txt\<rparr>"


definition long_title :: string where
  "long_title = replicate 200 (CHR ''x'') @ '' ''"

definition object0 :: storage_object where
  "object0 = \<lparr>o_bucket_id = ''complaint-attachments'', o_name = ''c1/1700.png''\<rparr>"

definition acts0 :: "(uuid option \<times> action) list" where
  "acts0 =
     [(Some ''s1'', Request (Delete_messages (\<lambda>m. True))),
      (Some ''m1'', Request (Update_messages (\<lambda>m. True) (\<lambda>m. m\<lparr>m_body := ''edited''\<rparr>))),
      (Some ''m1'', Request (Delete_complaints (\<lambda>c. True))),
      (Some ''m1'', Request (Delete_profiles (\<lambda>u p. True))),
      (Some ''s1'', SendMessage menv0
         (view0 ''c1'' (Some (row0 ''c1'' (Some ''s1'') False 100)) ''  Still broken '')),
      (Some ''m1'', UpdateComplaintStatus 550 ''c1'' Acknowledged)]"

section \<open>Facts about the model\<close>

lemmas sql_defs = sql_eq_def sql_or_def sql_and_def sql_is_null_def sql_is_not_null_def is_true_def

lemma exists_manager_or_admin_role:
  "exists_manager_or_admin d uid \<longleftrightarrow> role_of d uid = Some Manager \<or> role_of d uid = Some Admin"
  by (auto simp: exists_manager_or_admin_def role_of_def split: option.splits)

subsection \<open>The example store\<close>

lemma profiles0_simps:
  "profiles0 ''s1'' = Some \<lparr>pr_name = ''Asha'', pr_role = Student, pr_hub = Some ''Kochi Hub''\<rparr>"
  "profiles0 ''s2'' = Some \<lparr>pr_name = ''Binu'', pr_role = Student, pr_hub = None\<rparr>"
  "profiles0 ''m1'' = Some \<lparr>pr_name = ''Mini'', pr_role = Manager, pr_hub = None\<rparr>"
  by (simp_all add: profiles0_def)

lemma db0_simps:
  "profiles db0 = profiles0" "complaints db0 = []" "attachments db0 = []"
  "messages db0 = []" "objects db0 = []"
  by (simp_all add: db0_def)

lemma db1_simps:
  "profiles db1 = profiles0"
  "complaints db1 = [row0 ''c1'' (Some ''s1'') False 100, row0 ''c2'' (Some ''s2'') False 300,
                     row0 ''c3'' None True 200]"
  "attachments db1 = []"
  "messages db1 = [msg0 ''x1'' ''c1'' (Some ''s1'') ''Any news?'' 400,
                   msg0 ''x2'' ''c1'' (Some ''m1'') ''Looking into it'' 350]"
  "objects db1 = []"
  by (simp_all add: db1_def)

lemma row0_simps:
  "c_id (row0 i user a t) = i" "c_user_id (row0 i user a t) = user"
  "c_is_anonymous (row0 i user a t) = Some a" "c_created_at (row0 i user a t) = t"
  "c_manager_id (row0 i user a t) = None"
  by (simp_all add: row0_def)

lemma role_of_examples:
  "role_of db0 (Some ''s1'') = Some Student" "role_of db0 (Some ''m1'') = Some Manager"
  "role_of db1 (Some ''s1'') = Some Student" "role_of db1 (Some ''m1'') = Some Manager"
  by (simp_all add: role_of_def db0_simps db1_simps profiles0_simps)

lemma form0_issues: "complaintSchema_issues (read_form form0) = []"
  by (simp add: complaintSchema_issues_def read_form_def form0_def title_issues_def
      description_issues_def category_issues_def hub_issues_def room_issues_def
      priority_issues_def string_trim_min_max_def trim_def is_white_space_def)

lemma form0_enums:
  "category_of (category (read_form form0)) = Some Equipment"
  "priority_of (priority (read_form form0)) = Some High"
  by (simp_all add: read_form_def form0_def category_of_def priority_of_def)

lemma form0_row:
  "complaint_row env0 user isAnonymous (read_form form0) Equipment High =
     row0 ''c1'' (if isAnonymous then None else user) isAnonymous 100"
  by (simp add: complaint_row_def row0_def read_form_def form0_def env0_def)

lemma handleSubmit_manager_anonymous:
  "handleSubmit env0 db0 (Some ''m1'') True [] form0 =
     (Toast_success ''Complaint submitted successfully!'',
      db0\<lparr>complaints := [row0 ''c1'' None True 100]\<rparr>)"
  by (simp add: handleSubmit_def form0_issues form0_enums form0_row insert_complaint_def
      complaints_insert_check_def complaints_select_using_def sql_defs
      exists_manager_or_admin_role role_of_examples row0_simps db0_simps fk_profile_def)

subsection \<open>The upload loop writes to the blob store and to \<open>attachments\<close> only\<close>

lemma storage_upload_Inr:
  assumes "storage_upload d user bucket name = Inr d1"
  shows "d1 = d\<lparr>objects := objects d @ [\<lparr>o_bucket_id = bucket, o_name = name\<rparr>]\<rparr>"
  using assms by (auto simp: storage_upload_def Let_def split: if_splits)

lemma insert_attachment_Inr:
  assumes "insert_attachment d user row = Inr d1"
  shows "d1 = d\<lparr>attachments := attachments d @ [row]\<rparr>"
  using assms by (auto simp: insert_attachment_def split: if_splits)

lemma upload_file_tables [simp]:
  "complaints (upload_file e user anon cid i f d) = complaints d"
  "messages (upload_file e user anon cid i f d) = messages d"
  "profiles (upload_file e user anon cid i f d) = profiles d"
  by (auto simp: upload_file_def Let_def split: sum.splits
           dest!: storage_upload_Inr insert_attachment_Inr)

lemma complaints_upload_files [simp]:
  "complaints (upload_files e user anon cid i fs d) = complaints d"
  by (induction fs arbitrary: d i) simp_all

lemma messages_upload_files [simp]:
  "messages (upload_files e user anon cid i fs d) = messages d"
  by (induction fs arbitrary: d i) simp_all

lemma profiles_upload_files [simp]:
  "profiles (upload_files e user anon cid i fs d) = profiles d"
  by (induction fs arbitrary: d i) simp_all

text \<open>A complaint that a submission adds is the row built from the form.\<close>

lemma handleSubmit_new_row:
  assumes "c \<in> set (complaints (snd (handleSubmit e d user isAnonymous files fd)))"
      and "c \<notin> set (complaints d)"
  shows "c_id c = e_complaint_id e \<and> c_user_id c = (if isAnonymous then None else user)
         \<and> c_is_anonymous c = Some isAnonymous"
  using assms
  by (auto simp: handleSubmit_def insert_complaint_def complaint_row_def Let_def
           split: list.splits option.splits sum.splits if_splits prod.splits)

section \<open>Anonymous submissions store no submitter\<close>

text \<open>
  Claim C1. Every complaint that the submission flow creates with the anonymous flag set is
  stored without a submitter: its \<open>user_id\<close> is \<open>NULL\<close> (and its \<open>is_anonymous\<close> is true),
  whoever the caller \<open>user\<close> is. The complaints created by a run of \<open>handleSubmit\<close> are the
  rows of the table after the run that were not there before.
\<close>

theorem submit_anonymous_user_id_null:
  assumes "c \<in> set (complaints (snd (handleSubmit e d user True files fd)))"
      and "c \<notin> set (complaints d)"
  shows "c_user_id c = None \<and> c_is_anonymous c = Some True"
  using handleSubmit_new_row [OF assms] by simp

text \<open>A manager submits the example form anonymously into the empty store.\<close>

theorem submit_anonymous_user_id_null_witness:
  "row0 ''c1'' None True 100
     \<in> set (complaints (snd (handleSubmit env0 db0 (Some ''m1'') True [] form0)))
   \<and> row0 ''c1'' None True 100 \<notin> set (complaints db0)
   \<and> c_user_id (row0 ''c1'' None True 100) = None
   \<and> c_is_anonymous (row0 ''c1'' None True 100) = Some True"
  using submit_anonymous_user_id_null
          [of "row0 ''c1'' None True 100" env0 db0 "Some ''m1''" "[]" form0]
  by (simp add: handleSubmit_manager_anonymous db0_simps)

section \<open>Listing complaints\<close>

lemma select_complaints_student:
  assumes "role_of d uid = Some Student"
  shows "select_complaints d uid = filter (\<lambda>c. c_user_id c = uid) (complaints d)"
proof -
  from assms obtain u where u: "uid = Some u"
    by (cases uid) (auto simp: role_of_def)
  have "\<not> exists_manager_or_admin d uid"
    using assms by (simp add: exists_manager_or_admin_role)
  then have "is_true (complaints_select_using d uid c) \<longleftrightarrow> c_user_id c = uid" for c
    by (cases "c_user_id c") (auto simp: complaints_select_using_def sql_defs u)
  then show ?thesis
    by (simp add: select_complaints_def)
qed

lemma select_complaints_manager:
  assumes "exists_manager_or_admin d uid"
  shows "select_complaints d uid = complaints d"
  using assms by (simp add: select_complaints_def complaints_select_using_def sql_defs)

lemma newest_first_order_desc:
  "sorted_wrt (\<lambda>a b. key a \<ge> key b) (order_desc key rows)"
proof -
  have "sorted (map key (sort_key key rows))" by simp
  then have "sorted_wrt (\<lambda>a b. key a \<le> key b) (sort_key key rows)"
    by (simp add: sorted_map)
  then show ?thesis
    by (simp add: order_desc_def sorted_wrt_rev)
qed

lemma mset_order_desc: "mset (order_desc key rows) = mset rows"
  by (simp add: order_desc_def)

lemma fetchComplaints_examples:
  "fetchComplaints db1 (Some ''s1'') = [row0 ''c1'' (Some ''s1'') False 100]"
  "fetchComplaints db1 (Some ''m1'') =
     [row0 ''c2'' (Some ''s2'') False 300, row0 ''c3'' None True 200,
      row0 ''c1'' (Some ''s1'') False 100]"
  by (simp_all add: fetchComplaints_def order_desc_def select_complaints_def
      complaints_select_using_def sql_defs exists_manager_or_admin_role role_of_examples
      db1_simps row0_simps)

text \<open>
  Claim C2. A caller whose role is student gets from the listing exactly the rows of
  \<open>complaints\<close> whose \<open>user_id\<close> is the caller's id, each as often as the table has it; a
  caller whose role is manager or admin gets every row of the table, of whatever hub. The
  list is ordered newest first: no row comes before a row with a later \<open>created_at\<close>.
\<close>

theorem list_for_caller:
  "(role_of d uid = Some Student \<longrightarrow>
      mset (fetchComplaints d uid) = filter_mset (\<lambda>c. c_user_id c = uid) (mset (complaints d))
      \<and> set (fetchComplaints d uid) = {c \<in> set (complaints d). c_user_id c = uid})
   \<and> (role_of d uid = Some Manager \<or> role_of d uid = Some Admin \<longrightarrow>
      mset (fetchComplaints d uid) = mset (complaints d))
   \<and> sorted_wrt (\<lambda>a b. c_created_at a \<ge> c_created_at b) (fetchComplaints d uid)"
proof (intro conjI impI)
  assume s: "role_of d uid = Some Student"
  show "mset (fetchComplaints d uid) = filter_mset (\<lambda>c. c_user_id c = uid) (mset (complaints d))"
    by (simp add: fetchComplaints_def mset_order_desc select_complaints_student [OF s])
  then show "set (fetchComplaints d uid) = {c \<in> set (complaints d). c_user_id c = uid}"
    by (metis set_mset_mset set_mset_filter)
next
  assume "role_of d uid = Some Manager \<or> role_of d uid = Some Admin"
  then have "exists_manager_or_admin d uid"
    by (simp add: exists_manager_or_admin_role)
  then show "mset (fetchComplaints d uid) = mset (complaints d)"
    by (simp add: fetchComplaints_def mset_order_desc select_complaints_manager)
next
  show "sorted_wrt (\<lambda>a b. c_created_at a \<ge> c_created_at b) (fetchComplaints d uid)"
    by (simp add: fetchComplaints_def newest_first_order_desc)
qed

text \<open>
  In the example store the student \<open>s1\<close> gets the one complaint of their own, and the
  manager \<open>m1\<close> gets the three complaints, the one created at 300 first.
\<close>

theorem list_for_caller_witness:
  "role_of db1 (Some ''s1'') = Some Student
   \<and> set (fetchComplaints db1 (Some ''s1''))
       = {c \<in> set (complaints db1). c_user_id c = Some ''s1''}
   \<and> fetchComplaints db1 (Some ''s1'') = [row0 ''c1'' (Some ''s1'') False 100]
   \<and> role_of db1 (Some ''m1'') = Some Manager
   \<and> mset (fetchComplaints db1 (Some ''m1'')) = mset (complaints db1)
   \<and> map c_created_at (fetchComplaints db1 (Some ''m1'')) = [300, 200, 100]"
  using list_for_caller [of db1 "Some ''s1''"] list_for_caller [of db1 "Some ''m1''"]
  by (simp add: role_of_examples fetchComplaints_examples row0_simps)

section \<open>Updates by a caller who is neither manager nor admin\<close>

text \<open>
  The \<open>UPDATE\<close> policy hides every row from such a caller, so the update acts on no row:
  the store answers without an error and nothing changes.
\<close>

lemma update_complaints_denied:
  assumes "\<not> exists_manager_or_admin d user"
  shows "update_complaints now d user filt set_cols = Inr d"
  using assms
  by (auto simp: update_complaints_def complaints_update_using_def is_true_def Let_def
      fk_complaint_def)

text \<open>
  For comparison, the manager \<open>m1\<close> of the example store: the update acts on the row, the
  trigger sets \<open>updated_at\<close>.
\<close>

lemma manager_update_example:
  "updateComplaintStatus 550 db1 (Some ''m1'') ''c1'' Acknowledged
     = (Toast_success ''Status updated successfully'',
        db1\<lparr>complaints :=
              [(row0 ''c1'' (Some ''s1'') False 100)
                 \<lparr>c_status := Acknowledged, c_updated_at := 550\<rparr>,
               row0 ''c2'' (Some ''s2'') False 300, row0 ''c3'' None True 200]\<rparr>)"
  "assignComplaint 560 db1 (Some ''m1'') ''c2'' (Some ''m1'')
     = (Toast_success ''Complaint assigned successfully'',
        db1\<lparr>complaints :=
              [row0 ''c1'' (Some ''s1'') False 100,
               (row0 ''c2'' (Some ''s2'') False 300)
                 \<lparr>c_manager_id := Some ''m1'', c_updated_at := 560\<rparr>,
               row0 ''c3'' None True 200]\<rparr>)"
  by (simp_all add: updateComplaintStatus_def assignComplaint_def update_complaints_def Let_def
      complaints_update_using_def complaints_select_using_def sql_defs
      exists_manager_or_admin_role role_of_examples db1_simps row0_simps msg0_def
      fk_profile_def fk_complaint_def profiles0_simps)

text \<open>
  Claim C3, as stated, fails: it says that \<open>update_status\<close> and \<open>assign\<close> by a student fail
  with an error reported to the caller. In the example store the student \<open>s1\<close> updates the
  status of complaint \<open>c1\<close> and assigns it: the store reports no error and each handler
  shows its success notification.
\<close>

theorem student_update_no_error_counterexample:
  "role_of db1 (Some ''s1'') = Some Student
   \<and> fst (updateComplaintStatus 500 db1 (Some ''s1'') ''c1'' Resolved)
       = Toast_success ''Status updated successfully''
   \<and> fst (assignComplaint 500 db1 (Some ''s1'') ''c1'' (Some ''m1''))
       = Toast_success ''Complaint assigned successfully''"
  by (simp add: updateComplaintStatus_def assignComplaint_def update_complaints_denied
      exists_manager_or_admin_role role_of_examples)

text \<open>
  Claim C3, amended. For a caller whose role is student, \<open>update_status\<close> and \<open>assign\<close> on
  any complaint are denied without an error: the update acts on no row, the store is left
  as it was, and the store's answer is a success, which the handler reports as such. What
  reports a denial to a student is the page: \<open>checkManagerAccess\<close> shows an error and never
  sets \<open>profile\<close>, so the controls that call the two handlers are not shown.
\<close>

theorem student_update_changes_nothing:
  assumes "role_of d user = Some Student"
  shows "update_complaints now d user (\<lambda>c. c_id c = complaintId) set_cols = Inr d
         \<and> updateComplaintStatus now d user complaintId newStatus
             = (Toast_success ''Status updated successfully'', d)
         \<and> snd (assignComplaint now d user complaintId managerId) = d
         \<and> (\<exists>msg. fst (assignComplaint now d user complaintId managerId) = Toast_success msg)
         \<and> checkManagerAccess d user
             = (Some (Toast_error ''Access denied. Manager or admin role required.''), None)"
proof -
  have "\<not> exists_manager_or_admin d user"
    using assms by (simp add: exists_manager_or_admin_role)
  moreover have "checkManagerAccess d user
             = (Some (Toast_error ''Access denied. Manager or admin role required.''), None)"
    using assms by (auto simp: checkManagerAccess_def role_of_def split: option.splits)
  ultimately show ?thesis
    by (simp add: updateComplaintStatus_def assignComplaint_def update_complaints_denied)
qed

theorem student_update_changes_nothing_witness:
  "role_of db1 (Some ''s1'') = Some Student
   \<and> updateComplaintStatus 500 db1 (Some ''s1'') ''c1'' Resolved
       = (Toast_success ''Status updated successfully'', db1)
   \<and> snd (assignComplaint 500 db1 (Some ''s1'') ''c1'' (Some ''m1'')) = db1
   \<and> fst (checkManagerAccess db1 (Some ''s1''))
       = Some (Toast_error ''Access denied. Manager or admin role required.'')"
  using student_update_changes_nothing
          [of db1 "Some ''s1''" 500 "''c1''" id Resolved "Some ''m1''"]
  by (simp add: role_of_examples)

section \<open>Anonymous submissions by a caller who is neither manager nor admin\<close>

text \<open>
  \<open>handleSubmit\<close> asks for the inserted row (\<open>.insert(complaintData).select().single()\<close>),
  so the new row must pass the \<open>SELECT\<close> policy. With \<open>user_id\<close> \<open>NULL\<close> the comparison
  \<open>auth.uid() = user_id\<close> is unknown, and the row passes only for a manager or an admin.
\<close>

lemma anonymous_row_readable_iff:
  assumes "c_user_id c = None"
  shows "is_true (complaints_select_using d uid c) \<longleftrightarrow> exists_manager_or_admin d uid"
  using assms by (cases uid) (auto simp: complaints_select_using_def sql_defs)

lemma insert_anonymous_returning_denied:
  assumes "\<not> exists_manager_or_admin d user" "c_user_id row = None"
  shows "insert_complaint True d user row = Inl (Rls_violation ''complaints'')"
  using assms
  by (cases user) (auto simp: insert_complaint_def complaints_select_using_def sql_defs)

lemma handleSubmit_anonymous_not_manager:
  assumes "\<not> exists_manager_or_admin d user"
  shows "snd (handleSubmit e d user True files fd) = d"
proof -
  have "insert_complaint True d user (complaint_row e user True x cat pri)
          = Inl (Rls_violation ''complaints'')" for x cat pri
    using assms by (intro insert_anonymous_returning_denied) (simp_all add: complaint_row_def)
  then show ?thesis
    by (simp add: handleSubmit_def Let_def split: list.splits option.splits)
qed

text \<open>
  So a submission through the form with the anonymous flag set succeeds for a manager or an
  admin only. The student \<open>s1\<close> submits the valid example form with the flag set: the store
  refuses the insertion and no complaint is stored.
\<close>

lemma student_anonymous_submission_refused:
  "role_of db0 (Some ''s1'') = Some Student
   \<and> complaintSchema_issues (read_form form0) = []
   \<and> handleSubmit env0 db0 (Some ''s1'') True [] form0
       = (Toast_pg (Rls_violation ''complaints''), db0)"
  by (simp add: handleSubmit_def form0_issues form0_enums form0_row insert_complaint_def
      complaints_insert_check_def complaints_select_using_def sql_defs
      exists_manager_or_admin_role role_of_examples row0_simps db0_simps fk_profile_def)

section \<open>Validation of the form\<close>

lemma string_trim_min_max_ok:
  "string_trim_min_max lo lo_msg hi hi_msg s = []
     \<longleftrightarrow> lo \<le> length (trim s) \<and> length (trim s) \<le> hi"
  by (auto simp: string_trim_min_max_def Let_def)

lemma length_trim_le: "length (trim s) \<le> length s"
proof -
  have "length (trim s) = length (dropWhile is_white_space (rev (dropWhile is_white_space s)))"
    by (simp add: trim_def)
  also have "\<dots> \<le> length (rev (dropWhile is_white_space s))"
    by (rule length_dropWhile_le)
  also have "\<dots> \<le> length s"
    by (simp add: length_dropWhile_le)
  finally show ?thesis .
qed

lemma handleSubmit_issue:
  assumes "complaintSchema_issues (read_form fd) \<noteq> []"
  shows "handleSubmit e d user isAnonymous files fd
           = (Toast_zod (hd (complaintSchema_issues (read_form fd))), d)"
  using assms by (simp add: handleSubmit_def Let_def split: list.splits)

lemma handleSubmit_title_issue:
  assumes "title_issues (fd_title fd) \<noteq> []"
  shows "handleSubmit e d user isAnonymous files fd
           = (Toast_zod (hd (title_issues (fd_title fd))), d)"
  using assms handleSubmit_issue [of fd e d user isAnonymous files]
  by (simp add: complaintSchema_issues_def read_form_def)

lemma handleSubmit_no_issue:
  assumes "complaintSchema_issues (read_form fd) = []"
  shows "fst (handleSubmit e d user isAnonymous files fd) \<noteq> Toast_zod issue"
  using assms
  by (simp add: handleSubmit_def Let_def split: list.splits option.splits sum.splits)

lemma handleSubmit_student_named:
  "handleSubmit env0 db0 (Some ''s1'') False [] form0
     = (Toast_success ''Complaint submitted successfully!'',
        db0\<lparr>complaints := [row0 ''c1'' (Some ''s1'') False 100]\<rparr>)"
  by (simp add: handleSubmit_def form0_issues form0_enums form0_row insert_complaint_def
      complaints_insert_check_def complaints_select_using_def sql_defs
      exists_manager_or_admin_role role_of_examples row0_simps db0_simps fk_profile_def
      profiles0_simps)

lemma dropWhile_id: "xs \<noteq> [] \<Longrightarrow> \<not> P (hd xs) \<Longrightarrow> dropWhile P xs = xs"
  by (cases xs) auto

lemma trim_long_title: "trim long_title = replicate 200 (CHR ''x'')"
proof -
  have x: "\<not> is_white_space (CHR ''x'')" "is_white_space (CHR '' '')"
    by (simp_all add: is_white_space_def)
  have 1: "dropWhile is_white_space long_title = long_title"
    by (rule dropWhile_id) (simp_all add: long_title_def x)
  have 2: "rev long_title = CHR '' '' # replicate 200 (CHR ''x'')"
    by (simp add: long_title_def)
  have 3: "dropWhile is_white_space (replicate 200 (CHR ''x'')) = replicate 200 (CHR ''x'')"
    by (rule dropWhile_id) (simp_all add: x)
  show ?thesis
    by (simp add: trim_def 1 2 3 x)
qed

lemma form0_fields:
  "fd_description form0 = ''The projector in Lab 1 does not turn on.''"
  "fd_category form0 = ''equipment''" "fd_hub form0 = ''Kochi Hub''"
  "fd_room form0 = ''Lab 1''" "fd_priority form0 = ''high''"
  by (simp_all add: form0_def)

lemma form0_other_issues:
  "complaintSchema_issues (read_form (form0\<lparr>fd_title := t\<rparr>)) = title_issues t"
  by (simp add: complaintSchema_issues_def read_form_def form0_fields
      description_issues_def category_issues_def hub_issues_def room_issues_def
      priority_issues_def string_trim_min_max_def trim_def is_white_space_def)

text \<open>
  Claim C7, as stated, fails: it measures the lengths on the submitted values. The title
  \<open>abcd\<close> followed by a space has length 5 and is rejected; the title of 200 letters
  followed by a space has length 201 and is accepted. The other entries are those of the
  valid example form.
\<close>

theorem lengths_on_submitted_values_counterexample:
  "length (fd_title (form0\<lparr>fd_title := ''abcd ''\<rparr>)) = 5
   \<and> handleSubmit env0 db0 (Some ''s1'') False [] (form0\<lparr>fd_title := ''abcd ''\<rparr>)
       = (Toast_zod (Issue ''Title must be at least 5 characters''), db0)
   \<and> length (fd_title (form0\<lparr>fd_title := long_title\<rparr>)) = 201
   \<and> fst (handleSubmit env0 db0 (Some ''s1'') False [] (form0\<lparr>fd_title := long_title\<rparr>))
       = Toast_success ''Complaint submitted successfully!''"
proof (intro conjI)
  show "length (fd_title (form0\<lparr>fd_title := ''abcd ''\<rparr>)) = 5" by simp
  have "title_issues ''abcd '' = [Issue ''Title must be at least 5 characters'']"
    by (simp add: title_issues_def string_trim_min_max_def trim_def is_white_space_def)
  then show "handleSubmit env0 db0 (Some ''s1'') False [] (form0\<lparr>fd_title := ''abcd ''\<rparr>)
       = (Toast_zod (Issue ''Title must be at least 5 characters''), db0)"
    by (simp add: handleSubmit_title_issue)
  show "length (fd_title (form0\<lparr>fd_title := long_title\<rparr>)) = 201"
    by (simp add: long_title_def)
  have t: "title_issues long_title = []"
    by (simp add: title_issues_def string_trim_min_max_ok trim_long_title)
  have i: "complaintSchema_issues (read_form (form0\<lparr>fd_title := long_title\<rparr>)) = []"
    by (simp add: form0_other_issues t)
  have e: "category_of (category (read_form (form0\<lparr>fd_title := long_title\<rparr>))) = Some Equipment"
     "priority_of (priority (read_form (form0\<lparr>fd_title := long_title\<rparr>))) = Some High"
    using form0_enums by (simp_all add: read_form_def)
  show "fst (handleSubmit env0 db0 (Some ''s1'') False [] (form0\<lparr>fd_title := long_title\<rparr>))
       = Toast_success ''Complaint submitted successfully!''"
    by (simp add: handleSubmit_def Let_def i e insert_complaint_def complaint_row_def env0_def
      complaints_insert_check_def complaints_select_using_def sql_defs  db0_simps fk_profile_def
      profiles0_simps)
qed

text \<open>
  Claim C7, amended. The lengths are measured after the white space at both ends of the
  submitted value is removed. A submission is rejected with a validation error, and the
  store left as it was, exactly when some entry has an issue, the title and the description
  among them (an empty entry for the room, read as \<open>null\<close>, is an issue too); the title has
  no issue exactly when its trimmed length is from 5 to 200, the description exactly when
  its trimmed length is from 20 to 2000. So a
  title whose trimmed length is 4 or 201 is rejected and one whose trimmed length is 5 or
  200 passes, a description whose trimmed length is 19 or 2001 is rejected and one whose
  trimmed length is 20 or 2000 passes; a submitted title shorter than 5 and a submitted
  description shorter than 20 are rejected whatever they contain.
\<close>

theorem validation_measures_trimmed_lengths:
  "((\<exists>issue. fst (handleSubmit e d user isAnonymous files fd) = Toast_zod issue)
      \<longleftrightarrow> complaintSchema_issues (read_form fd) \<noteq> [])
   \<and> (complaintSchema_issues (read_form fd) \<noteq> [] \<longrightarrow>
        snd (handleSubmit e d user isAnonymous files fd) = d)
   \<and> (complaintSchema_issues (read_form fd) = [] \<longleftrightarrow>
        title_issues (fd_title fd) = [] \<and> description_issues (fd_description fd) = []
        \<and> category_issues (fd_category fd) = [] \<and> hub_issues (fd_hub fd) = []
        \<and> room_issues (if fd_room fd = [] then None else Some (fd_room fd)) = []
        \<and> priority_issues (fd_priority fd) = [])
   \<and> (title_issues t = [] \<longleftrightarrow> 5 \<le> length (trim t) \<and> length (trim t) \<le> 200)
   \<and> (description_issues s = [] \<longleftrightarrow> 20 \<le> length (trim s) \<and> length (trim s) \<le> 2000)
   \<and> (length t < 5 \<longrightarrow> title_issues t \<noteq> [])
   \<and> (length s < 20 \<longrightarrow> description_issues s \<noteq> [])"
proof (intro conjI)
  show "(\<exists>issue. fst (handleSubmit e d user isAnonymous files fd) = Toast_zod issue)
      \<longleftrightarrow> complaintSchema_issues (read_form fd) \<noteq> []"
    using handleSubmit_no_issue [of fd e d user isAnonymous files]
      handleSubmit_issue [of fd e d user isAnonymous files]
    by (cases "complaintSchema_issues (read_form fd) = []") auto
  show "complaintSchema_issues (read_form fd) \<noteq> [] \<longrightarrow>
        snd (handleSubmit e d user isAnonymous files fd) = d"
    by (simp add: handleSubmit_issue)
  show "complaintSchema_issues (read_form fd) = [] \<longleftrightarrow>
        title_issues (fd_title fd) = [] \<and> description_issues (fd_description fd) = []
        \<and> category_issues (fd_category fd) = [] \<and> hub_issues (fd_hub fd) = []
        \<and> room_issues (if fd_room fd = [] then None else Some (fd_room fd)) = []
        \<and> priority_issues (fd_priority fd) = []"
    by (simp add: complaintSchema_issues_def read_form_def)
  show "title_issues t = [] \<longleftrightarrow> 5 \<le> length (trim t) \<and> length (trim t) \<le> 200"
    by (simp add: title_issues_def string_trim_min_max_ok)
  show "description_issues s = [] \<longleftrightarrow> 20 \<le> length (trim s) \<and> length (trim s) \<le> 2000"
    by (simp add: description_issues_def string_trim_min_max_ok)
  show "length t < 5 \<longrightarrow> title_issues t \<noteq> []"
    using length_trim_le [of t] by (simp add: title_issues_def string_trim_min_max_ok)
  show "length s < 20 \<longrightarrow> description_issues s \<noteq> []"
    using length_trim_le [of s] by (simp add: description_issues_def string_trim_min_max_ok)
qed

theorem validation_measures_trimmed_lengths_witness:
  "complaintSchema_issues (read_form (form0\<lparr>fd_title := ''abcd ''\<rparr>)) \<noteq> []
   \<and> snd (handleSubmit env0 db0 (Some ''s1'') False [] (form0\<lparr>fd_title := ''abcd ''\<rparr>)) = db0
   \<and> title_issues ''abcd '' \<noteq> []
   \<and> length (trim ''  Wi-Fi  '') = 5 \<and> title_issues ''  Wi-Fi  '' = []
   \<and> length ''abcd'' < (5::nat)"
  using validation_measures_trimmed_lengths
     [of env0 db0 "Some ''s1''" False "[]" "form0\<lparr>fd_title := ''abcd ''\<rparr>" "''abcd''" "''abcd''"]
     validation_measures_trimmed_lengths
     [of env0 db0 "Some ''s1''" False "[]" "form0\<lparr>fd_title := ''abcd ''\<rparr>" "''  Wi-Fi  ''" "''abcd''"]
  by (simp add: trim_def is_white_space_def title_issues_def string_trim_min_max_def)

section \<open>Limits on the files of a submission\<close>








section \<open>The keys of the uploaded objects\<close>

lemma js_split_not_Nil: "js_split sep s \<noteq> []"
  by (induction s) (auto split: list.splits)

lemma js_split_prefix:
  "sep \<notin> set a \<Longrightarrow> js_split sep (a @ sep # rest) = a # js_split sep rest"
  by (induction a) (auto split: list.splits)

lemma first_folder_object_key:
  assumes "CHR ''/'' \<notin> set cid"
  shows "sql_first (foldername (object_key cid t f)) = Some cid"
proof -
  obtain rest where k: "object_key cid t f = cid @ CHR ''/'' # rest"
    by (simp add: object_key_def Let_def)
  have "string_to_array (object_key cid t f) (CHR ''/'') = cid # js_split (CHR ''/'') rest"
    by (simp add: string_to_array_def k js_split_prefix [OF assms])
  then show ?thesis
    by (simp add: foldername_def sql_first_def js_split_not_Nil)
qed

lemma objects_upload_file:
  assumes "ob \<in> set (objects (upload_file e user anon cid i f d))"
  shows "ob \<in> set (objects d)
         \<or> ob = \<lparr>o_bucket_id = ''complaint-attachments'',
                  o_name = object_key cid (e_date_now e i) f\<rparr>"
  using assms
  by (auto simp: upload_file_def Let_def split: sum.splits
           dest!: storage_upload_Inr insert_attachment_Inr)

lemma objects_upload_files:
  assumes "ob \<in> set (objects (upload_files e user anon cid i fs d))"
  shows "ob \<in> set (objects d)
         \<or> (\<exists>j f. f \<in> set fs \<and> ob = \<lparr>o_bucket_id = ''complaint-attachments'',
                                       o_name = object_key cid (e_date_now e j) f\<rparr>)"
  using assms
proof (induction fs arbitrary: d i)
  case Nil
  then show ?case by simp
next
  case (Cons f fs)
  from Cons.prems have "ob \<in> set (objects (upload_files e user anon cid (Suc i) fs
                                  (upload_file e user anon cid i f d)))"
    by simp
  from Cons.IH [OF this] objects_upload_file [of ob e user anon cid i f d]
  show ?case by auto
qed

lemma insert_complaint_Inr:
  assumes "insert_complaint r d user row = Inr d1"
  shows "d1 = d\<lparr>complaints := complaints d @ [row]\<rparr>"
  using assms by (auto simp: insert_complaint_def split: if_splits)

lemma complaint_row_simps:
  "c_id (complaint_row e user isAnonymous x cat pri) = e_complaint_id e"
  "c_user_id (complaint_row e user isAnonymous x cat pri) = (if isAnonymous then None else user)"
  "c_is_anonymous (complaint_row e user isAnonymous x cat pri) = Some isAnonymous"
  by (simp_all add: complaint_row_def)

lemma handleSubmit_cases:
  "snd (handleSubmit e d user isAnonymous files fd) = d
   \<or> (\<exists>cat pri.
         snd (handleSubmit e d user isAnonymous files fd)
           = upload_files e user isAnonymous (e_complaint_id e) 0 files
               (d\<lparr>complaints := complaints d
                      @ [complaint_row e user isAnonymous (read_form fd) cat pri]\<rparr>))"
  by (auto simp: handleSubmit_def Let_def complaint_row_simps
           split: list.splits option.splits sum.splits dest!: insert_complaint_Inr)

lemma handleSubmit_new_object:
  assumes "ob \<in> set (objects (snd (handleSubmit e d user isAnonymous files fd)))"
      and "ob \<notin> set (objects d)"
  shows "(\<exists>j f. f \<in> set files \<and> ob = \<lparr>o_bucket_id = ''complaint-attachments'',
                    o_name = object_key (e_complaint_id e) (e_date_now e j) f\<rparr>)
         \<and> (\<exists>c \<in> set (complaints (snd (handleSubmit e d user isAnonymous files fd))).
               c_id c = e_complaint_id e)"
proof -
  from handleSubmit_cases [of e d user isAnonymous files fd] assms
  obtain cat pri where s: "snd (handleSubmit e d user isAnonymous files fd)
             = upload_files e user isAnonymous (e_complaint_id e) 0 files
                 (d\<lparr>complaints := complaints d
                        @ [complaint_row e user isAnonymous (read_form fd) cat pri]\<rparr>)"
    by auto
  from assms(1) have "ob \<in> set (objects (upload_files e user isAnonymous (e_complaint_id e) 0
        files (d\<lparr>complaints := complaints d
                 @ [complaint_row e user isAnonymous (read_form fd) cat pri]\<rparr>)))"
    by (simp add: s)
  from objects_upload_files [OF this] assms(2)
  have "\<exists>j f. f \<in> set files \<and> ob = \<lparr>o_bucket_id = ''complaint-attachments'',
                    o_name = object_key (e_complaint_id e) (e_date_now e j) f\<rparr>"
    by simp
  moreover have "complaint_row e user isAnonymous (read_form fd) cat pri
                   \<in> set (complaints (snd (handleSubmit e d user isAnonymous files fd)))"
    by (simp add: s)
  ultimately show ?thesis using complaint_row_simps(1) by blast
qed

text \<open>
  Claim C9. Every object that a submission writes to the blob store has the id of the
  complaint of that submission as the first folder of its key. Hence for a caller whose id
  is not that complaint id (ids are UUIDs: a complaint id has no \<open>/\<close> and is the id of no
  principal), the uploader included, the owner clause of the read policy of the blob store
  is not true, and the policy lets the caller read the object exactly when the caller is a
  manager or an admin.
\<close>

theorem attachment_keys_in_complaint_folder:
  assumes "ob \<in> set (objects (snd (handleSubmit e d user isAnonymous files fd)))"
      and "ob \<notin> set (objects d)"
      and "CHR ''/'' \<notin> set (e_complaint_id e)"
  shows "sql_first (foldername (o_name ob)) = Some (e_complaint_id e)
         \<and> (\<exists>c \<in> set (complaints (snd (handleSubmit e d user isAnonymous files fd))).
               c_id c = e_complaint_id e)
         \<and> (\<forall>uid d'. uid \<noteq> Some (e_complaint_id e) \<longrightarrow>
               \<not> is_true (objects_owner_clause uid ob)
               \<and> (is_true (objects_select_using d' uid ob) \<longleftrightarrow> exists_manager_or_admin d' uid))"
proof -
  from handleSubmit_new_object [OF assms(1,2)]
  obtain j f where ob: "ob = \<lparr>o_bucket_id = ''complaint-attachments'',
                    o_name = object_key (e_complaint_id e) (e_date_now e j) f\<rparr>"
    and c: "\<exists>c \<in> set (complaints (snd (handleSubmit e d user isAnonymous files fd))).
               c_id c = e_complaint_id e"
    by blast
  have ff: "sql_first (foldername (o_name ob)) = Some (e_complaint_id e)"
    by (simp add: ob first_folder_object_key [OF assms(3)])
  have "\<not> is_true (objects_owner_clause uid ob)
        \<and> (is_true (objects_select_using d' uid ob) \<longleftrightarrow> exists_manager_or_admin d' uid)"
    if "uid \<noteq> Some (e_complaint_id e)" for uid d'
  proof -
    have b: "o_bucket_id ob = ''complaint-attachments''" by (simp add: ob)
    show ?thesis
      using that
      by (cases uid) (auto simp: objects_owner_clause_def objects_select_using_def ff b sql_defs)
  qed
  with ff c show ?thesis by blast
qed

text \<open>
  The student \<open>s1\<close> submits the example form with one file, \<open>photo.png\<close>; the clock reads
  1700 at the upload.
\<close>

lemma object_key_example: "object_key ''c1'' 1700 (file0 ''photo.png'' 2048) = ''c1/1700.png''"
  by code_simp

lemma objects_upload_file_eq:
  "objects (upload_file e user anon cid i f d)
     = (case storage_upload d user ''complaint-attachments'' (object_key cid (e_date_now e i) f) of
          Inl _ \<Rightarrow> objects d | Inr d1 \<Rightarrow> objects d1)"
  by (auto simp: upload_file_def Let_def split: sum.splits dest!: insert_attachment_Inr)

lemma handleSubmit_with_file:
  "objects (snd (handleSubmit env0 db0 (Some ''s1'') False [file0 ''photo.png'' 2048] form0))
     = [object0]"
proof -
  have k: "object_key ''c1'' (e_date_now env0 0) (file0 ''photo.png'' 2048) = ''c1/1700.png''"
    using object_key_example by (simp add: env0_def)
  show ?thesis
    by (simp add: handleSubmit_def Let_def form0_issues form0_enums form0_row
      insert_complaint_def complaints_insert_check_def complaints_select_using_def sql_defs
      row0_simps db0_simps fk_profile_def profiles0_simps complaint_row_simps
      objects_upload_file_eq k storage_upload_def objects_insert_check_def object0_def)
qed

theorem attachment_keys_in_complaint_folder_witness:
  "object0 \<in> set (objects (snd (handleSubmit env0 db0 (Some ''s1'') False
                                  [file0 ''photo.png'' 2048] form0)))
   \<and> object0 \<notin> set (objects db0)
   \<and> CHR ''/'' \<notin> set (e_complaint_id env0)
   \<and> sql_first (foldername (o_name object0)) = Some ''c1''
   \<and> role_of db1 (Some ''s1'') = Some Student
   \<and> \<not> is_true (objects_owner_clause (Some ''s1'') object0)
   \<and> \<not> is_true (objects_select_using db1 (Some ''s1'') object0)
   \<and> is_true (objects_select_using db1 (Some ''m1'') object0)"
proof -
  have 1: "object0 \<in> set (objects (snd (handleSubmit env0 db0 (Some ''s1'') False
                                  [file0 ''photo.png'' 2048] form0)))"
    by (simp add: handleSubmit_with_file)
  have 2: "object0 \<notin> set (objects db0)"
    by (simp add: db0_simps)
  have 3: "CHR ''/'' \<notin> set (e_complaint_id env0)"
    by (simp add: env0_def)
  have 4: "e_complaint_id env0 = ''c1''"
    by (simp add: env0_def)
  note t = attachment_keys_in_complaint_folder [OF 1 2 3, unfolded 4]
  from t have a: "sql_first (foldername (o_name object0)) = Some ''c1''"
    by simp
  from t have b: "\<not> is_true (objects_owner_clause (Some ''s1'') object0)
     \<and> (is_true (objects_select_using db1 (Some ''s1'') object0)
          \<longleftrightarrow> exists_manager_or_admin db1 (Some ''s1''))"
    by simp
  from t have c: "is_true (objects_select_using db1 (Some ''m1'') object0)
          \<longleftrightarrow> exists_manager_or_admin db1 (Some ''m1'')"
    by simp
  from 1 2 3 a b c show ?thesis
    by (simp add: exists_manager_or_admin_role role_of_examples)
qed

section \<open>The thread of a complaint\<close>

lemma sql_eq_commute: "sql_eq a b = sql_eq b a"
  by (auto simp: sql_eq_def split: option.splits)

lemma parent_complaint_readable_iff:
  "parent_complaint_readable d uid cid
     \<longleftrightarrow> (\<exists>c \<in> set (complaints d). c_id c = cid \<and> is_true (complaints_select_using d uid c))"
  by (simp add: parent_complaint_readable_def complaints_select_using_def sql_eq_commute)

lemma filter_key_distinct:
  "distinct (map key xs) \<Longrightarrow> x \<in> set xs \<Longrightarrow> filter (\<lambda>y. key y = key x) xs = [x]"
proof (induction xs)
  case Nil
  then show ?case by simp
next
  case (Cons a xs)
  then show ?case
    by (auto simp: filter_empty_conv image_iff)
qed

lemma single_readable:
  assumes "distinct (map c_id (complaints d))" "c \<in> set (complaints d)"
    and "is_true (complaints_select_using d user c)"
  shows "single (filter (\<lambda>x. c_id x = c_id c) (select_complaints d user)) = Inr c"
proof -
  have "filter (\<lambda>x. c_id x = c_id c) (select_complaints d user)
        = filter (\<lambda>x. is_true (complaints_select_using d user x))
            (filter (\<lambda>x. c_id x = c_id c) (complaints d))"
    by (simp add: select_complaints_def conj_commute)
  also have "\<dots> = [c]"
    by (simp add: filter_key_distinct [OF assms(1,2)] assms(3))
  finally show ?thesis by (simp add: single_def)
qed

lemma select_messages_of_readable:
  assumes "c \<in> set (complaints d)" "is_true (complaints_select_using d user c)"
  shows "filter (\<lambda>m. m_complaint_id m = c_id c) (select_messages d user)
         = filter (\<lambda>m. m_complaint_id m = c_id c) (messages d)"
proof -
  have "parent_complaint_readable d user (c_id c)"
    using assms by (auto simp: parent_complaint_readable_iff)
  then show ?thesis
    by (auto simp: select_messages_def messages_select_using_def is_true_def
             intro!: filter_cong)
qed

lemma fetchComplaintDetails_readable:
  assumes "distinct (map c_id (complaints d))" "c \<in> set (complaints d)"
    and "is_true (complaints_select_using d user c)" "v_id v = c_id c"
  shows "fetchComplaintDetails d user v
         = ([], v\<lparr>v_complaint := Some c,
                  v_messages := order_asc m_created_at
                     (filter (\<lambda>m. m_complaint_id m = c_id c) (messages d))\<rparr>)"
  by (simp add: fetchComplaintDetails_def assms(4) single_readable [OF assms(1-3)]
      select_messages_of_readable [OF assms(2,3)])

lemma insert_message_Inr:
  assumes "insert_message d user row = Inr d1"
  shows "d1 = d\<lparr>messages := messages d @ [row]\<rparr>"
  using assms by (auto simp: insert_message_def split: if_splits)

lemma message_row_simps:
  "m_id (message_row e user c txt) = e_message_id e"
  "m_complaint_id (message_row e user c txt) = c_id c"
  "m_sender_id (message_row e user c txt) = user"
  "m_body (message_row e user c txt) = trim txt"
  "m_created_at (message_row e user c txt) = e_message_now e"
  by (simp_all add: message_row_def)

lemma insert_message_ok:
  assumes "profiles d u \<noteq> None" "c \<in> set (complaints d)"
    and "e_message_id e \<notin> set (map m_id (messages d))"
  shows "insert_message d (Some u) (message_row e (Some u) c txt)
         = Inr (d\<lparr>messages := messages d @ [message_row e (Some u) c txt]\<rparr>)"
  using assms
  by (auto simp: insert_message_def messages_insert_check_def sql_defs message_row_simps
      fk_complaint_def fk_profile_def)

lemma complaints_select_using_messages [simp]:
  "complaints_select_using (d\<lparr>messages := ms\<rparr>) user c = complaints_select_using d user c"
  by (simp add: complaints_select_using_def exists_manager_or_admin_def split: option.splits)


lemma sendMessage_sent:
  assumes "trim (v_newMessage v) \<noteq> []" "v_complaint v = Some c" "v_id v = c_id c"
    and "c \<in> set (complaints d)" "distinct (map c_id (complaints d))"
    and "is_true (complaints_select_using d (Some u) c)"
    and "profiles d u \<noteq> None" "e_message_id e \<notin> set (map m_id (messages d))"
  shows "sendMessage e d (Some u) v
         = ([Toast_success ''Message sent''],
            d\<lparr>messages := messages d @ [message_row e (Some u) c (v_newMessage v)]\<rparr>,
            v\<lparr>v_newMessage := [], v_complaint := Some c,
              v_messages := order_asc m_created_at
                (filter (\<lambda>m. m_complaint_id m = c_id c)
                   (messages d @ [message_row e (Some u) c (v_newMessage v)]))\<rparr>)"
proof -
  let ?d1 = "d\<lparr>messages := messages d @ [message_row e (Some u) c (v_newMessage v)]\<rparr>"
  have f: "fetchComplaintDetails ?d1 (Some u) (v\<lparr>v_newMessage := []\<rparr>)
        = ([], v\<lparr>v_newMessage := [], v_complaint := Some c,
                  v_messages := order_asc m_created_at
                     (filter (\<lambda>m. m_complaint_id m = c_id c) (messages ?d1))\<rparr>)"
    by (rule fetchComplaintDetails_readable) (simp_all add: assms)
  show ?thesis
    using assms(1,2) f
    by (simp add: sendMessage_def insert_message_ok [OF assms(7,4,8)])
qed


text \<open>
  In the example store the student \<open>s1\<close>, on complaint \<open>c1\<close>, first sends three spaces,
  then a text with spaces around it.
\<close>

lemma message_row_example:
  "message_row menv0 user (row0 i owner a t) ''  Still broken '' = msg0 ''x3'' i user ''Still broken'' 500"
  by (simp add: message_row_def msg0_def menv0_def row0_simps trim_def is_white_space_def)

lemma view0_simps:
  "v_id (view0 i c txt) = i" "v_complaint (view0 i c txt) = c" "v_newMessage (view0 i c txt) = txt"
  "v_messages (view0 i c txt) = []"
  by (simp_all add: view0_def)

lemma msg0_simps:
  "m_id (msg0 i cid sender body t) = i" "m_complaint_id (msg0 i cid sender body t) = cid"
  "m_sender_id (msg0 i cid sender body t) = sender" "m_created_at (msg0 i cid sender body t) = t"
  "m_body (msg0 i cid sender body t) = body"
  by (simp_all add: msg0_def)

lemma trim_examples:
  "trim ''   '' = []" "trim ''  Still broken '' = ''Still broken''"
  by (simp_all add: trim_def is_white_space_def)


section \<open>The sender of a message\<close>

text \<open>
  Claim C10. A message that \<open>sendMessage\<close> inserts for a caller with a session has the
  caller's id as its \<open>sender_id\<close>, never \<open>NULL\<close>, whatever the complaint loaded in the view
  is, an anonymous one included.
\<close>

theorem message_sender_is_caller:
  assumes "m \<in> set (messages (fst (snd (sendMessage e d (Some u) v))))"
      and "m \<notin> set (messages d)"
  shows "m_sender_id m = Some u \<and> (\<exists>c. v_complaint v = Some c \<and> m_complaint_id m = c_id c)"
  using assms
  by (auto simp: sendMessage_def message_row_simps
           split: if_splits option.splits sum.splits prod.splits dest!: insert_message_Inr)

text \<open>The manager \<open>m1\<close> writes on the anonymous complaint \<open>c3\<close>.\<close>

theorem message_sender_is_caller_witness:
  "c_is_anonymous (row0 ''c3'' None True 200) = Some True
   \<and> msg0 ''x3'' ''c3'' (Some ''m1'') ''Still broken'' 500
       \<in> set (messages (fst (snd (sendMessage menv0 db1 (Some ''m1'')
             (view0 ''c3'' (Some (row0 ''c3'' None True 200)) ''  Still broken '')))))
   \<and> msg0 ''x3'' ''c3'' (Some ''m1'') ''Still broken'' 500 \<notin> set (messages db1)
   \<and> m_sender_id (msg0 ''x3'' ''c3'' (Some ''m1'') ''Still broken'' 500) = Some ''m1''"
proof -
  let ?c = "row0 ''c3'' None True 200"
  let ?v = "view0 ''c3'' (Some ?c) ''  Still broken ''"
  have s: "sendMessage menv0 db1 (Some ''m1'') ?v
         = ([Toast_success ''Message sent''],
            db1\<lparr>messages := messages db1 @ [message_row menv0 (Some ''m1'') ?c (v_newMessage ?v)]\<rparr>,
            ?v\<lparr>v_newMessage := [], v_complaint := Some ?c,
              v_messages := order_asc m_created_at
                (filter (\<lambda>m. m_complaint_id m = c_id ?c)
                   (messages db1 @ [message_row menv0 (Some ''m1'') ?c (v_newMessage ?v)]))\<rparr>)"
    by (rule sendMessage_sent)
       (simp_all add: view0_simps trim_examples db1_simps row0_simps msg0_simps menv0_def
        complaints_select_using_def sql_defs profiles0_simps exists_manager_or_admin_role
        role_of_examples)
  have 1: "msg0 ''x3'' ''c3'' (Some ''m1'') ''Still broken'' 500
       \<in> set (messages (fst (snd (sendMessage menv0 db1 (Some ''m1'') ?v))))"
    by (simp add: s view0_simps message_row_example)
  have 2: "msg0 ''x3'' ''c3'' (Some ''m1'') ''Still broken'' 500 \<notin> set (messages db1)"
    by (simp add: db1_simps msg0_def)
  from 1 2 message_sender_is_caller [OF 1 2] show ?thesis
    by (simp add: row0_simps)
qed

section \<open>Messages are only ever appended\<close>

text \<open>
  \<open>messages\<close> has no \<open>UPDATE\<close> and no \<open>DELETE\<close> policy, \<open>complaints\<close> and \<open>profiles\<close> have no
  \<open>DELETE\<close> policy: such requests act on no row.
\<close>

lemma update_messages_denied: "update_messages d uid filt set_cols = Inr d"
  by (simp add: update_messages_def messages_update_using_def is_true_def)

lemma delete_messages_denied: "delete_messages d uid filt = Inr d"
  by (simp add: delete_messages_def messages_delete_using_def is_true_def)

lemma delete_complaints_denied: "delete_complaints d uid filt = Inr d"
  by (simp add: delete_complaints_def complaints_delete_using_def is_true_def)

lemma set_null_nobody: "set_null (\<lambda>u. False) r = r"
  by (cases r) (simp_all add: set_null_def)

lemma delete_profiles_denied: "delete_profiles d uid filt = Inr d"
proof -
  have "(case profiles d u of None \<Rightarrow> False
         | Some p \<Rightarrow> filt u p \<and> is_true (profiles_delete_using d uid u)) = False" for u
    by (simp add: profiles_delete_using_def is_true_def split: option.splits)
  then show ?thesis
    by (simp add: delete_profiles_def set_null_nobody)
qed

lemma messages_exec:
  assumes "exec d uid r = Inr d1"
  shows "prefix (messages d) (messages d1)"
proof (cases r)
  case (Insert_complaint returning row)
  with assms show ?thesis by (auto dest!: insert_complaint_Inr)
next
  case (Update_complaints now filt set_cols)
  with assms show ?thesis
    by (auto simp: update_complaints_def Let_def split: if_splits)
next
  case (Delete_complaints filt)
  with assms show ?thesis by (simp add: delete_complaints_denied)
next
  case (Insert_message row)
  with assms show ?thesis by (auto dest!: insert_message_Inr)
next
  case (Update_messages filt set_cols)
  with assms show ?thesis by (simp add: update_messages_denied)
next
  case (Delete_messages filt)
  with assms show ?thesis by (simp add: delete_messages_denied)
next
  case (Insert_attachment row)
  with assms show ?thesis by (auto dest!: insert_attachment_Inr)
next
  case (Storage_upload bucket name)
  with assms show ?thesis by (auto dest!: storage_upload_Inr)
next
  case (Delete_profiles filt)
  with assms show ?thesis by (simp add: delete_profiles_denied)
qed

lemma messages_handleSubmit:
  "messages (snd (handleSubmit e d user isAnonymous files fd)) = messages d"
  using handleSubmit_cases [of e d user isAnonymous files fd] by auto

lemma messages_sendMessage:
  "prefix (messages d) (messages (fst (snd (sendMessage e d user v))))"
  by (auto simp: sendMessage_def split: option.splits sum.splits prod.splits
           dest!: insert_message_Inr)

lemma messages_update_complaints:
  "update_complaints now d user filt set_cols = Inr d1 \<Longrightarrow> messages d1 = messages d"
  by (auto simp: update_complaints_def Let_def split: if_splits)

lemma messages_step: "prefix (messages d) (messages (step d a))"
proof (cases a)
  case (Pair uid act)
  show ?thesis
  proof (cases act)
    case (Request r)
    with Pair show ?thesis
      by (auto split: sum.splits dest: messages_exec)
  next
    case (HandleSubmit e isAnonymous files fd)
    with Pair show ?thesis by (simp add: messages_handleSubmit)
  next
    case (SendMessage e v)
    with Pair show ?thesis by (simp add: messages_sendMessage)
  next
    case (UpdateComplaintStatus now complaintId newStatus)
    with Pair show ?thesis
      by (auto simp: updateComplaintStatus_def split: sum.splits dest!: messages_update_complaints)
  next
    case (AssignComplaint now complaintId managerId)
    with Pair show ?thesis
      by (auto simp: assignComplaint_def split: sum.splits dest!: messages_update_complaints)
  qed
qed

text \<open>
  Claim C6. Whatever the callers do, in any number and order, by the handlers of the pages
  or by direct requests to the store, the table of messages after is the table before
  with, possibly, messages added at its end: no message is removed and none is changed in
  any column. (A complaint cannot be deleted by any request, so the cascade of its deletion
  never runs.)
\<close>

theorem messages_append_only:
  "prefix (messages d) (messages (run d acts))"
proof (induction acts arbitrary: d)
  case Nil
  then show ?case by (simp add: run_def)
next
  case (Cons a acts)
  have "prefix (messages d) (messages (step d a))" by (rule messages_step)
  also have "prefix (messages (step d a)) (messages (run (step d a) acts))" by (rule Cons.IH)
  finally show ?case by (simp add: run_def)
qed

text \<open>
  In the example store a student asks to delete every message, a manager asks to rewrite
  every message, to delete every complaint and every profile; then the student sends a
  message and the manager acknowledges the complaint.
\<close>

lemma messages_updateComplaintStatus:
  "messages (snd (updateComplaintStatus now d uid i st)) = messages d"
  by (auto simp: updateComplaintStatus_def split: sum.splits dest!: messages_update_complaints)

theorem messages_append_only_witness:
  "prefix (messages db1) (messages (run db1 acts0))
   \<and> messages (run db1 acts0)
       = messages db1 @ [msg0 ''x3'' ''c1'' (Some ''s1'') ''Still broken'' 500]"
proof -
  let ?c = "row0 ''c1'' (Some ''s1'') False 100"
  let ?v = "view0 ''c1'' (Some ?c) ''  Still broken ''"
  have s: "sendMessage menv0 db1 (Some ''s1'') ?v
         = ([Toast_success ''Message sent''],
            db1\<lparr>messages := messages db1 @ [message_row menv0 (Some ''s1'') ?c (v_newMessage ?v)]\<rparr>,
            ?v\<lparr>v_newMessage := [], v_complaint := Some ?c,
              v_messages := order_asc m_created_at
                (filter (\<lambda>m. m_complaint_id m = c_id ?c)
                   (messages db1 @ [message_row menv0 (Some ''s1'') ?c (v_newMessage ?v)]))\<rparr>)"
    by (rule sendMessage_sent)
       (simp_all add: view0_simps trim_examples db1_simps row0_simps msg0_simps menv0_def
        complaints_select_using_def sql_defs profiles0_simps)
  have "messages (run db1 acts0)
       = messages db1 @ [msg0 ''x3'' ''c1'' (Some ''s1'') ''Still broken'' 500]"
    by (simp add: run_def acts0_def delete_messages_denied update_messages_denied
        delete_complaints_denied delete_profiles_denied messages_updateComplaintStatus s
        view0_simps message_row_example)
  with messages_append_only [of db1 acts0] show ?thesis by simp
qed

section \<open>An anonymous complaint and the student who created it\<close>

text \<open>
  The \<open>INSERT\<close> policy admits a row with \<open>is_anonymous\<close> true from any caller, so a student
  creates an anonymous complaint by an insertion that does not ask for the row back; the
  row is the one \<open>handleSubmit\<close> builds, with \<open>user_id\<close> \<open>NULL\<close>.
\<close>

lemma insert_complaint_fresh_id:
  assumes "insert_complaint returning d user row = Inr d1"
  shows "c_id row \<notin> set (map c_id (complaints d))"
  using assms by (auto simp: insert_complaint_def split: if_splits)

lemma role_of_complaints [simp]: "role_of (d\<lparr>complaints := cs\<rparr>) uid = role_of d uid"
  by (simp add: role_of_def split: option.splits)

lemma set_fetchComplaints:
  "set (fetchComplaints d uid)
     = {c \<in> set (complaints d). is_true (complaints_select_using d uid c)}"
  by (simp add: fetchComplaints_def order_desc_def select_complaints_def)

text \<open>
  Claim C4. A student who has created a complaint with the anonymous flag set cannot read
  or list it afterwards: the stored \<open>user_id\<close> is \<open>NULL\<close>, so the read predicate is not
  true for them; the listing of the dashboard does not contain the complaint and the
  detail view fails to load it. The complaint is visible, to the predicate and in the
  listing, exactly to the callers whose role is manager or admin.
\<close>

theorem anonymous_complaint_hidden_from_its_student:
  assumes "role_of d user = Some Student"
      and "insert_complaint returning d user (complaint_row e user True x cat pri) = Inr d1"
      and "v_id v = e_complaint_id e"
  shows "complaint_row e user True x cat pri \<in> set (complaints d1)
         \<and> c_user_id (complaint_row e user True x cat pri) = None
         \<and> \<not> is_true (complaints_select_using d1 user (complaint_row e user True x cat pri))
         \<and> complaint_row e user True x cat pri \<notin> set (fetchComplaints d1 user)
         \<and> fetchComplaintDetails d1 user v
             = ([Toast_error ''Failed to load complaint details''], v)
         \<and> (\<forall>uid. is_true (complaints_select_using d1 uid (complaint_row e user True x cat pri))
                \<longleftrightarrow> role_of d1 uid = Some Manager \<or> role_of d1 uid = Some Admin)
         \<and> (\<forall>uid. complaint_row e user True x cat pri \<in> set (fetchComplaints d1 uid)
                \<longleftrightarrow> role_of d1 uid = Some Manager \<or> role_of d1 uid = Some Admin)"
proof -
  let ?row = "complaint_row e user True x cat pri"
  have d1: "d1 = d\<lparr>complaints := complaints d @ [?row]\<rparr>"
    using assms(2) by (rule insert_complaint_Inr)
  have fresh: "c_id ?row \<notin> set (map c_id (complaints d))"
    using assms(2) by (rule insert_complaint_fresh_id)
  have mem: "?row \<in> set (complaints d1)"
    by (simp add: d1)
  have null: "c_user_id ?row = None"
    by (simp add: complaint_row_simps)
  have vis: "is_true (complaints_select_using d1 uid ?row)
               \<longleftrightarrow> role_of d1 uid = Some Manager \<or> role_of d1 uid = Some Admin" for uid
    by (simp add: anonymous_row_readable_iff [OF null] exists_manager_or_admin_role)
  have student: "role_of d1 user = Some Student"
    using assms(1) by (simp add: d1)
  have hidden: "\<not> is_true (complaints_select_using d1 user ?row)"
    by (simp add: vis student)
  have listed: "?row \<in> set (fetchComplaints d1 uid)
               \<longleftrightarrow> role_of d1 uid = Some Manager \<or> role_of d1 uid = Some Admin" for uid
    by (simp add: set_fetchComplaints mem vis)
  have "filter (\<lambda>c. c_id c = v_id v) (select_complaints d1 user) = []"
  proof -
    have "c \<in> set (select_complaints d1 user) \<Longrightarrow> c_id c \<noteq> v_id v" for c
    proof
      assume c: "c \<in> set (select_complaints d1 user)" and i: "c_id c = v_id v"
      from c have cm: "c \<in> set (complaints d1)"
        and cr: "is_true (complaints_select_using d1 user c)"
        by (simp_all add: select_complaints_def)
      from cm have "c \<in> set (complaints d) \<or> c = ?row"
        unfolding d1 by auto
      then show False
      proof
        assume "c \<in> set (complaints d)"
        then have "c_id c \<in> set (map c_id (complaints d))"
          by simp
        with fresh i assms(3) show False
          by (simp add: complaint_row_simps)
      next
        assume "c = ?row"
        with cr hidden show False
          by simp
      qed
    qed
    then show ?thesis
      by (auto simp: filter_empty_conv)
  qed
  then have fetch: "fetchComplaintDetails d1 user v
             = ([Toast_error ''Failed to load complaint details''], v)"
    by (simp add: fetchComplaintDetails_def single_def)
  from mem null hidden fetch vis listed student show ?thesis
    by simp
qed

text \<open>
  The student \<open>s1\<close> inserts the row of the example form, anonymous, into the empty store,
  without asking for the row back; the manager \<open>m1\<close> then finds it in the listing.
\<close>

lemma plain_insert_student_anonymous:
  "insert_complaint False db0 (Some ''s1'')
      (complaint_row env0 (Some ''s1'') True (read_form form0) Equipment High)
     = Inr (db0\<lparr>complaints := [row0 ''c1'' None True 100]\<rparr>)"
  by (simp add: form0_row insert_complaint_def complaints_insert_check_def sql_defs
      row0_simps db0_simps fk_profile_def)

theorem anonymous_complaint_hidden_from_its_student_witness:
  "role_of db0 (Some ''s1'') = Some Student
   \<and> insert_complaint False db0 (Some ''s1'')
        (complaint_row env0 (Some ''s1'') True (read_form form0) Equipment High)
       = Inr (db0\<lparr>complaints := [row0 ''c1'' None True 100]\<rparr>)
   \<and> row0 ''c1'' None True 100 \<in> set (complaints (db0\<lparr>complaints := [row0 ''c1'' None True 100]\<rparr>))
   \<and> row0 ''c1'' None True 100
        \<notin> set (fetchComplaints (db0\<lparr>complaints := [row0 ''c1'' None True 100]\<rparr>) (Some ''s1''))
   \<and> fetchComplaintDetails (db0\<lparr>complaints := [row0 ''c1'' None True 100]\<rparr>) (Some ''s1'')
        (view0 ''c1'' None [])
       = ([Toast_error ''Failed to load complaint details''], view0 ''c1'' None [])
   \<and> row0 ''c1'' None True 100
        \<in> set (fetchComplaints (db0\<lparr>complaints := [row0 ''c1'' None True 100]\<rparr>) (Some ''m1''))"
proof -
  have r: "role_of db0 (Some ''s1'') = Some Student"
    by (simp add: role_of_examples)
  have i: "v_id (view0 ''c1'' None []) = e_complaint_id env0"
    by (simp add: view0_def env0_def)
  have m: "role_of (db0\<lparr>complaints := [row0 ''c1'' None True 100]\<rparr>) (Some ''m1'') = Some Manager"
    by (simp add: role_of_examples)
  note t = anonymous_complaint_hidden_from_its_student
             [OF r plain_insert_student_anonymous i, unfolded form0_row]
  from t have "row0 ''c1'' None True 100
        \<in> set (fetchComplaints (db0\<lparr>complaints := [row0 ''c1'' None True 100]\<rparr>) (Some ''m1''))"
    using m by simp
  with t r plain_insert_student_anonymous show ?thesis
    by simp
qed

end
